theory Spec2Isabelle
  imports Complex_Main
begin

section \<open>Data of the chat application (app.py)\<close>

text \<open>
  A chat message is the dictionary \<^verbatim>\<open>{"role": ..., "content": ...}\<close> of the source; both
  entries are Python strings.
\<close>

record message =
  role :: string
  content :: string

text \<open>
  One element of the streamed completion. The source reads
  \<^verbatim>\<open>chunk.choices[0].delta.content\<close>: a chunk has a list of choices, a choice has a
  delta, and the content of a delta is a string or Python's None.
\<close>

datatype delta = Delta (delta_content: "string option")

datatype choice = Choice (choice_delta: delta)

datatype chunk = Chunk (chunk_choices: "choice list")

text \<open>
  The exceptions a run of app.py can end with: the three of Python that its own
  statements raise, and the StreamlitAPIException of a multiselect whose default is not
  among its options.
\<close>

datatype py_error = IndexError | TypeError | KeyError | StreamlitAPIException

text \<open>
  \<^verbatim>\<open>class StreamHandler\<close>: the attribute \<^verbatim>\<open>text\<close> and the placeholder
  \<^verbatim>\<open>container\<close>. Every call of \<^verbatim>\<open>container.markdown\<close> replaces what the placeholder
  shows; the model keeps the sequence of the texts it has shown, oldest first.
\<close>

record stream_handler =
  container :: "string list"
  handler_text :: string

definition StreamHandler :: "string \<Rightarrow> stream_handler" where
  "StreamHandler initial_text = \<lparr>container = [], handler_text = initial_text\<rparr>"

text \<open>
  \<^verbatim>\<open>process_token\<close>: \<^verbatim>\<open>self.text += token\<close> raises TypeError when the token is None;
  otherwise the new text is rendered.
\<close>

definition process_token :: "stream_handler \<Rightarrow> string option \<Rightarrow> py_error + stream_handler" where
  "process_token h token =
     (case token of
        None \<Rightarrow> Inl TypeError
      | Some t \<Rightarrow>
          (let h1 = h\<lparr>handler_text := handler_text h @ t\<rparr>
           in Inr (h1\<lparr>container := container h1 @ [handler_text h1]\<rparr>)))"

text \<open>\<^verbatim>\<open>chunk.choices[0].delta.content\<close>; indexing an empty list raises IndexError.\<close>

definition chunk_content :: "chunk \<Rightarrow> py_error + string option" where
  "chunk_content c =
     (case chunk_choices c of
        [] \<Rightarrow> Inl IndexError
      | ch # _ \<Rightarrow> Inr (delta_content (choice_delta ch)))"

text \<open>
  The loop \<^verbatim>\<open>for chunk in completion\<close> of lines 179-181. The completion is a finite
  sequence; an exception leaves the loop with the handler as it was at that moment.
\<close>

fun consume :: "stream_handler \<Rightarrow> chunk list \<Rightarrow> stream_handler \<times> py_error option" where
  "consume h [] = (h, None)"
| "consume h (c # cs) =
     (case chunk_content c of
        Inl e \<Rightarrow> (h, Some e)
      | Inr token \<Rightarrow>
          (case process_token h token of
             Inl e \<Rightarrow> (h, Some e)
           | Inr h' \<Rightarrow> consume h' cs))"

section \<open>Collaborators of app.py\<close>

text \<open>
  \<^verbatim>\<open>repo_service\<close>, \<^verbatim>\<open>llm_service\<close> and \<^verbatim>\<open>token_count\<close> are imported by app.py. What
  app.py calls of them is a parameter of the model, one field per function, under the
  name the source calls it by. The type \<open>'rm\<close> stands for the RepoManager object together
  with the clones it manages, so that a method which mutates the manager or one of its
  repositories returns the new \<open>'rm\<close>: \<^verbatim>\<open>update_repo\<close> and \<^verbatim>\<open>delete_repo\<close> are methods of
  the repository object of the selected URL and take that URL here. \<open>'repo\<close> is what
  \<^verbatim>\<open>get_repo_service\<close> returns and \<open>'client\<close> what \<^verbatim>\<open>create_client_for_model\<close> returns. A repository URL and a model
  identifier come from a select box, which yields None when it has no option. Calls of
  the collaborators are taken to return: exceptions of theirs are not modelled.
\<close>

record ('rm, 'repo, 'client) services =
  RepoManager :: 'rm
  load_repos :: "'rm \<Rightarrow> 'rm"
  add_repo :: "'rm \<Rightarrow> string \<Rightarrow> bool \<times> 'rm"
  check_if_repo_exists :: "'rm \<Rightarrow> string option \<Rightarrow> bool"
  isEmpty :: "'rm \<Rightarrow> bool"
  get_repo_service :: "'rm \<Rightarrow> string option \<Rightarrow> 'repo"
  repo_name :: "'repo \<Rightarrow> string"
  get_files_options :: "'repo \<Rightarrow> string list"
  get_filtered_files :: "'repo \<Rightarrow> string list \<Rightarrow> string list \<Rightarrow> string list \<Rightarrow> int \<Rightarrow> string"
  update_repo :: "'rm \<Rightarrow> string option \<Rightarrow> bool \<times> 'rm"
  delete_repo :: "'rm \<Rightarrow> string option \<Rightarrow> bool \<times> 'rm"
  num_tokens_from_string :: "string \<Rightarrow> int"
  num_messages :: "message list \<Rightarrow> int"
  MODELS :: "string list"
  create_client_for_model :: "string option \<Rightarrow> 'client"
  chat :: "'client \<Rightarrow> message list \<Rightarrow> real \<Rightarrow> string option \<Rightarrow> chunk list"

section \<open>One run of the script\<close>

text \<open>
  Streamlit runs \<^verbatim>\<open>create_app\<close> from top to bottom once per user action. What the widgets
  return in a run is the input of that run: a button is True in the run its click caused,
  \<^verbatim>\<open>st.chat_input\<close> returns the submitted text or None.
\<close>

record ui_input =
  custom_repo_url :: string
  add_clicked :: bool
  refresh_clicked :: bool
  repo_url :: "string option"
  selected_folder :: "string list"
  selected_files :: "string list"
  selected_languages :: "string list"
  limit :: int
  count_tokens_clicked :: bool
  update_clicked :: bool
  delete_clicked :: bool
  selected_model :: "string option"
  temperature :: real
  system_prompt :: string
  clear_chat_clicked :: bool
  prompt :: "string option"

text \<open>
  What a run shows and which collaborators it calls, in program order. Messages whose
  text the source formats from lists or numbers carry the formatted values instead of the
  text. The widgets themselves, the two fixed titles of the sidebar and the logger calls
  are left out, and so are the calls that only fill the options of a widget
  (\<^verbatim>\<open>get_repo_urls\<close>, \<^verbatim>\<open>get_folders_options\<close>, \<^verbatim>\<open>get_languages_options\<close>).
\<close>

datatype 'client event =
    Success string
  | Error string
  | Info string
  | Write string
  | Title string
  | Selection_Info "string list" "string list" "string list" int
  | Total_Tokens int
  | Chat_Message string string
  | Markdown string
  | Sidebar_Sending "string list" "string list"
  | Sidebar_Total int
  | Call_add_repo string
  | Call_create_client "string option"
  | Call_get_filtered_files "string list" "string list" "string list" int
  | Call_chat 'client "message list" real "string option"

text \<open>
  \<^verbatim>\<open>st.session_state\<close>. Lines 29-32 store a new RepoManager and an empty message list in
  the first run of a session and nothing ever removes the two keys, so they are fields
  that always hold a value, set by \<open>new_session\<close>. The keys \<^verbatim>\<open>client\<close> and
  \<^verbatim>\<open>selected_model\<close> are tested for absence later (lines 102 and 136): None is the absent
  key, and \<open>Some None\<close> the key \<^verbatim>\<open>selected_model\<close> holding Python's None.
\<close>

record ('rm, 'client) session_state =
  ss_repoManager :: 'rm
  ss_messages :: "message list"
  ss_client :: "'client option"
  ss_selected_model :: "string option option"

definition new_session :: "('rm, 'repo, 'client) services \<Rightarrow> ('rm, 'client) session_state" where
  "new_session api =
     \<lparr>ss_repoManager = RepoManager api, ss_messages = [], ss_client = None,
      ss_selected_model = None\<rparr>"

text \<open>How a run ends: at the last line, at \<^verbatim>\<open>st.stop()\<close>, at \<^verbatim>\<open>st.rerun()\<close>, or by an exception.\<close>

datatype outcome = Finished | Stopped | Rerun | Raised py_error

text \<open>\<^verbatim>\<open>st.session_state.messages.append(m)\<close> (lines 130 and 183) and line 100.\<close>

definition append_message :: "('rm, 'client) session_state \<Rightarrow> message \<Rightarrow> ('rm, 'client) session_state" where
  "append_message s m = s\<lparr>ss_messages := ss_messages s @ [m]\<rparr>"

definition clear_chat :: "('rm, 'client) session_state \<Rightarrow> ('rm, 'client) session_state" where
  "clear_chat s = s\<lparr>ss_messages := []\<rparr>"

text \<open>An f-string prints None as the text None.\<close>

definition py_str :: "string option \<Rightarrow> string" where
  "py_str v = (case v of None \<Rightarrow> ''None'' | Some t \<Rightarrow> t)"

text \<open>
  Lines 40-45, the button Add Custom Repository. The assignment to \<^verbatim>\<open>repo_url\<close> in line 45
  is overwritten by the select box of line 50 before it is read.
\<close>

definition add_custom_repository ::
  "('rm, 'repo, 'client) services \<Rightarrow> ui_input \<Rightarrow> ('rm, 'client) session_state \<Rightarrow>
     ('rm, 'client) session_state \<times> 'client event list" where
  "add_custom_repository api ui s =
     (if add_clicked ui then
        (let (ok, rm) = add_repo api (ss_repoManager s) (custom_repo_url ui)
         in (s\<lparr>ss_repoManager := rm\<rparr>,
             [Call_add_repo (custom_repo_url ui),
              if ok then Success (''Added custom repository: '' @ custom_repo_url ui)
              else Error (''Repository add failed: '' @ custom_repo_url ui)]))
      else (s, []))"

text \<open>\<^verbatim>\<open>refresh_repos\<close>, lines 20-24; the manager is in the session when it is called.\<close>

definition refresh_repos ::
  "('rm, 'repo, 'client) services \<Rightarrow> ('rm, 'client) session_state \<Rightarrow>
     ('rm, 'client) session_state \<times> 'client event list" where
  "refresh_repos api s =
     (s\<lparr>ss_repoManager := load_repos api (ss_repoManager s)\<rparr>,
      [Success ''Refreshed repositories''])"

text \<open>Lines 37-48: the two buttons at the top of the sidebar.\<close>

definition registry_buttons ::
  "('rm, 'repo, 'client) services \<Rightarrow> ui_input \<Rightarrow> ('rm, 'client) session_state \<Rightarrow>
     ('rm, 'client) session_state \<times> 'client event list" where
  "registry_buttons api ui s =
     (let (s1, ev1) = add_custom_repository api ui s;
          (s2, ev2) = (if refresh_clicked ui then refresh_repos api s1 else (s1, []))
      in (s2, ev1 @ ev2))"

text \<open>
  Lines 52-86: the controls of the selected repository. The result says whether the run
  goes on (None) or ends here: with \<^verbatim>\<open>st.rerun()\<close>, or in lines 56-57 with the exception
  that \<^verbatim>\<open>st.multiselect\<close> raises when its default, the file README.md, is not one of the
  options \<^verbatim>\<open>repo.get_files_options()\<close>.
\<close>

definition repo_controls ::
  "('rm, 'repo, 'client) services \<Rightarrow> ui_input \<Rightarrow> ('rm, 'client) session_state \<Rightarrow>
     outcome option \<times> ('rm, 'client) session_state \<times> 'client event list" where
  "repo_controls api ui s =
     (if check_if_repo_exists api (ss_repoManager s) (repo_url ui) then
        (let repo = get_repo_service api (ss_repoManager s) (repo_url ui);
             ev1 = (if count_tokens_clicked ui then
                      [Call_get_filtered_files (selected_folder ui) (selected_files ui)
                         (selected_languages ui) (limit ui),
                       Total_Tokens (num_tokens_from_string api
                         (get_filtered_files api repo (selected_folder ui) (selected_files ui)
                            (selected_languages ui) (limit ui)))]
                    else [])
         in if ''README.md'' \<notin> set (get_files_options api repo) then
              (Some (Raised StreamlitAPIException), s, [])
            else if update_clicked ui then
              (let (ok, rm) = update_repo api (ss_repoManager s) (repo_url ui)
               in (Some Rerun, s\<lparr>ss_repoManager := rm\<rparr>,
                   ev1 @ [if ok then Success (''Updated repository: '' @ py_str (repo_url ui))
                          else Error (''Repository update failed: '' @ py_str (repo_url ui))]))
            else if delete_clicked ui then
              (let (ok, rm) = delete_repo api (ss_repoManager s) (repo_url ui);
                   (s1, ev2) = refresh_repos api (s\<lparr>ss_repoManager := rm\<rparr>)
               in (Some Rerun, s1,
                   ev1 @ [if ok then Success (''Deleted repository: '' @ py_str (repo_url ui))
                          else Error (''Repository delete failed: '' @ py_str (repo_url ui))]
                       @ ev2))
            else (None, s, ev1))
      else (None, s, []))"

text \<open>Lines 102-103: the first client of the session.\<close>

definition initial_client ::
  "('rm, 'repo, 'client) services \<Rightarrow> ui_input \<Rightarrow> ('rm, 'client) session_state \<Rightarrow>
     ('rm, 'client) session_state \<times> 'client event list" where
  "initial_client api ui s =
     (case ss_client s of
        None \<Rightarrow>
          (s\<lparr>ss_client := Some (create_client_for_model api (selected_model ui))\<rparr>,
           [Call_create_client (selected_model ui)])
      | Some _ \<Rightarrow> (s, []))"

text \<open>Lines 136-141: the check whether the selected model has changed.\<close>

definition select_client ::
  "('rm, 'repo, 'client) services \<Rightarrow> string option \<Rightarrow> ('rm, 'client) session_state \<Rightarrow>
     ('rm, 'client) session_state \<times> 'client event list" where
  "select_client api model s =
     (let s1 = (case ss_selected_model s of
                  None \<Rightarrow> s\<lparr>ss_selected_model := Some None\<rparr>
                | Some _ \<Rightarrow> s)
      in if ss_selected_model s1 \<noteq> Some model then
           (s1\<lparr>ss_client := Some (create_client_for_model api model),
               ss_selected_model := Some model\<rparr>,
            [Call_create_client model])
         else (s1, []))"

text \<open>Lines 156-160.\<close>

definition assemble_messages :: "string \<Rightarrow> string \<Rightarrow> message list \<Rightarrow> message list" where
  "assemble_messages sys_prompt file_string history =
     [\<lparr>role = ''system'', content = sys_prompt\<rparr>]
     @ [\<lparr>role = ''user'', content = file_string\<rparr>]
     @ history"

text \<open>
  Lines 154 and 179-185: a new handler with the empty text consumes the completion, and
  the text it has collected becomes the assistant's message.
\<close>

definition stream_response ::
  "chunk list \<Rightarrow> ('rm, 'client) session_state \<Rightarrow>
     outcome \<times> ('rm, 'client) session_state \<times> 'client event list" where
  "stream_response completion s =
     (case consume (StreamHandler []) completion of
        (h, Some e) \<Rightarrow> (Raised e, s, map Markdown (container h))
      | (h, None) \<Rightarrow>
          (Finished,
           append_message s \<lparr>role = ''assistant'', content = handler_text h\<rparr>,
           map Markdown (container h)))"

text \<open>Lines 130-185: one chat turn, for the prompt \<open>p\<close> and the repository of line 113.\<close>

definition chat_turn ::
  "('rm, 'repo, 'client) services \<Rightarrow> ui_input \<Rightarrow> 'repo \<Rightarrow> string \<Rightarrow>
     ('rm, 'client) session_state \<Rightarrow>
     outcome \<times> ('rm, 'client) session_state \<times> 'client event list" where
  "chat_turn api ui repo p s =
     (let s1 = append_message s \<lparr>role = ''user'', content = p\<rparr>;
          ev1 = [Chat_Message ''user'' p];
          (s2, ev2) = select_client api (selected_model ui) s1;
          file_string = get_filtered_files api repo (selected_folder ui) (selected_files ui)
                          (selected_languages ui) (limit ui);
          ev3 = [Call_get_filtered_files (selected_folder ui) (selected_files ui)
                   (selected_languages ui) (limit ui)];
          messages = assemble_messages (system_prompt ui) file_string (ss_messages s2)
      in case ss_client s2 of
           None \<Rightarrow> (Raised KeyError, s2, ev1 @ ev2 @ ev3)
         | Some client \<Rightarrow>
             (let ev4 = [Sidebar_Sending (selected_files ui) (selected_folder ui),
                         Sidebar_Total (num_messages api messages),
                         Call_chat client messages (temperature ui) (selected_model ui)];
                  completion = chat api client messages (temperature ui) (selected_model ui);
                  (out, s3, ev5) = stream_response completion s2
              in (out, s3, ev1 @ ev2 @ ev3 @ ev4 @ ev5)))"

text \<open>
  Lines 105-185: the guards, the page and the chat. In line 129 None and the empty string
  are false.
\<close>

definition main_area ::
  "('rm, 'repo, 'client) services \<Rightarrow> ui_input \<Rightarrow> ('rm, 'client) session_state \<Rightarrow>
     outcome \<times> ('rm, 'client) session_state \<times> 'client event list" where
  "main_area api ui s =
     (if isEmpty api (ss_repoManager s) then
        (Stopped, s, [Info ''Copy the repository URL and click the download button.''])
      else if \<not> check_if_repo_exists api (ss_repoManager s) (repo_url ui) then
        (Stopped, s,
         [Info (py_str (repo_url ui) @ '' does not exist. Please add the repository first.'')])
      else
        (let repo = get_repo_service api (ss_repoManager s) (repo_url ui);
             page = [Title (''Repo: '' @ repo_name api repo),
                     Write ''Chat with LLM using the repository information and files. You can change model settings anytime during the chat.'',
                     Selection_Info (selected_files ui) (selected_folder ui)
                       (selected_languages ui) (limit ui)]
                    @ map (\<lambda>msg. Chat_Message (role msg) (content msg)) (ss_messages s)
         in case prompt ui of
              None \<Rightarrow> (Finished, s, page)
            | Some p \<Rightarrow>
                if p = [] then (Finished, s, page)
                else (let (out, s1, ev) = chat_turn api ui repo p s
                      in (out, s1, page @ ev))))"

text \<open>\<^verbatim>\<open>create_app\<close>, lines 26-185.\<close>

definition create_app ::
  "('rm, 'repo, 'client) services \<Rightarrow> ui_input \<Rightarrow> ('rm, 'client) session_state \<Rightarrow>
     outcome \<times> ('rm, 'client) session_state \<times> 'client event list" where
  "create_app api ui s =
     (let (s1, ev1) = registry_buttons api ui s;
          (ctl, s2, ev2) = repo_controls api ui s1
      in case ctl of
           Some out \<Rightarrow> (out, s2, ev1 @ ev2)
         | None \<Rightarrow>
             (let s3 = (if clear_chat_clicked ui then clear_chat s2 else s2);
                  (s4, ev4) = initial_client api ui s3;
                  (out, s5, ev5) = main_area api ui s4
              in (out, s5, ev1 @ ev2 @ ev4 @ ev5)))"

text \<open>
  A session is a sequence of runs, each from the session state the run before it left.
  The result is the final session state and the events of all runs in order.
\<close>

fun session_runs ::
  "('rm, 'repo, 'client) services \<Rightarrow> ui_input list \<Rightarrow> ('rm, 'client) session_state \<Rightarrow>
     ('rm, 'client) session_state \<times> 'client event list" where
  "session_runs api [] s = (s, [])"
| "session_runs api (ui # uis) s =
     (case create_app api ui s of
        (out, s1, ev) \<Rightarrow>
          (case session_runs api uis s1 of (s2, evs) \<Rightarrow> (s2, ev @ evs)))"


section \<open>The select boxes\<close>

text \<open>
  \<^verbatim>\<open>st.selectbox(label, options=...)\<close> returns one of its options, and None when there is
  no option (lines 50-51 and 90).
\<close>

definition selectbox_values :: "string list \<Rightarrow> string option set" where
  "selectbox_values options = (if options = [] then {None} else Some ` set options)"

text \<open>
  The relation between the two session keys \<^verbatim>\<open>client\<close> and \<^verbatim>\<open>selected_model\<close> that every
  run keeps: a model recorded under \<^verbatim>\<open>selected_model\<close> is the one the stored client was
  created for, and where there is no model to select the stored client was created for
  None.
\<close>

definition client_matches_model ::
  "('rm, 'repo, 'client) services \<Rightarrow> ('rm, 'client) session_state \<Rightarrow> bool" where
  "client_matches_model api s =
     ((case ss_selected_model s of
         None \<Rightarrow> True
       | Some None \<Rightarrow> True
       | Some (Some m) \<Rightarrow> ss_client s = Some (create_client_for_model api (Some m)))
      \<and> (MODELS api = [] \<longrightarrow>
           ss_client s = None \<or> ss_client s = Some (create_client_for_model api None)))"

text \<open>The model recorded in the session: None while the key is absent or holds None.\<close>

definition recorded_model :: "('rm, 'client) session_state \<Rightarrow> string option" where
  "recorded_model s = (case ss_selected_model s of None \<Rightarrow> None | Some v \<Rightarrow> v)"

text \<open>The events that build the context or call the model.\<close>

fun builds_context_or_calls_model :: "'client event \<Rightarrow> bool" where
  "builds_context_or_calls_model (Call_get_filtered_files _ _ _ _) = True"
| "builds_context_or_calls_model (Call_chat _ _ _ _) = True"
| "builds_context_or_calls_model _ = False"

fun creates_client :: "'client event \<Rightarrow> bool" where
  "creates_client (Call_create_client _) = True"
| "creates_client _ = False"

fun is_add_repo_call :: "'client event \<Rightarrow> bool" where
  "is_add_repo_call (Call_add_repo _) = True"
| "is_add_repo_call _ = False"

section \<open>The content selector and the registry, from the specification\<close>

text \<open>
  Modelled from the spec: \<^verbatim>\<open>get_filtered_files\<close> of \<^verbatim>\<open>repo_service\<close>, which is not among the
  sources. Section 3 gives a repository its files with path, language and size, and
  folders derived from the paths; section 4.1 gives the selection: a file is included if
  each of the three filters is empty or contains the file's folder, path or language;
  the included files are concatenated in a stable order, each after a separator that
  identifies its path, until the cumulative size would exceed the limit, and no further
  file is included from that point. The separator is not given by the spec and is a
  parameter.
\<close>

record repo_file =
  file_path :: string
  file_folder :: string
  file_language :: string
  file_size :: nat
  file_content :: string

definition file_matches :: "string list \<Rightarrow> string list \<Rightarrow> string list \<Rightarrow> repo_file \<Rightarrow> bool" where
  "file_matches folders files languages f =
     ((folders = [] \<or> file_folder f \<in> set folders)
      \<and> (files = [] \<or> file_path f \<in> set files)
      \<and> (languages = [] \<or> file_language f \<in> set languages))"

fun within_limit :: "int \<Rightarrow> int \<Rightarrow> repo_file list \<Rightarrow> repo_file list" where
  "within_limit budget used [] = []"
| "within_limit budget used (f # fs) =
     (if used + int (file_size f) > budget then []
      else f # within_limit budget (used + int (file_size f)) fs)"

definition included_files ::
  "repo_file list \<Rightarrow> string list \<Rightarrow> string list \<Rightarrow> string list \<Rightarrow> int \<Rightarrow> repo_file list" where
  "included_files repo folders files languages budget =
     within_limit budget 0 (filter (file_matches folders files languages) repo)"

definition render_file :: "(string \<Rightarrow> string) \<Rightarrow> repo_file \<Rightarrow> string" where
  "render_file separator f = separator (file_path f) @ file_content f"

definition spec_select ::
  "(string \<Rightarrow> string) \<Rightarrow> repo_file list \<Rightarrow> string list \<Rightarrow> string list \<Rightarrow> string list \<Rightarrow> int
     \<Rightarrow> string" where
  "spec_select separator repo folders files languages budget =
     concat (map (render_file separator) (included_files repo folders files languages budget))"

text \<open>
  Modelled from the spec: \<^verbatim>\<open>RepoManager.add_repo\<close> of \<^verbatim>\<open>repo_service\<close>, which is not among
  the sources. Section 4.5: the registry tracks the known repositories by URL, and
  \<^verbatim>\<open>add(url)\<close> reports success or failure; section 3: a repository is created on add;
  section 8: an add whose clone fails returns failure and leaves the registry unchanged.
  The registry is the list of the known URLs, each with its repository, and
  \<open>known_urls\<close> is the set of section 4.5's \<^verbatim>\<open>list()\<close>. The clone is a parameter: it yields
  the repository, or None when it fails.
\<close>

definition registry_add ::
  "(string \<Rightarrow> 'r option) \<Rightarrow> (string \<times> 'r) list \<Rightarrow> string \<Rightarrow> bool \<times> (string \<times> 'r) list" where
  "registry_add clone reg url =
     (case clone url of
        None \<Rightarrow> (False, reg)
      | Some r \<Rightarrow> (True, (url, r) # filter (\<lambda>entry. fst entry \<noteq> url) reg))"

definition known_urls :: "(string \<times> 'r) list \<Rightarrow> string set" where
  "known_urls reg = fst ` set reg"

section \<open>A small installation\<close>

text \<open>
  Concrete collaborators on which the theorems below are run: one known repository, one
  model, a client that is the name of its model and answers every request with the same
  two increments, and cloning switched off.
\<close>

definition example_api :: "((string \<times> string) list, string, string) services" where
  "example_api =
     \<lparr>RepoManager = [(''https://example.org/demo.git'', ''demo'')],
      load_repos = (\<lambda>rm. rm),
      add_repo = (\<lambda>rm url. (False, rm)),
      check_if_repo_exists =
        (\<lambda>rm u. case u of None \<Rightarrow> False | Some x \<Rightarrow> map_of rm x \<noteq> None),
      isEmpty = (\<lambda>rm. rm = []),
      get_repo_service = (\<lambda>rm u. case u of None \<Rightarrow> [] | Some x \<Rightarrow> py_str (map_of rm x)),
      repo_name = (\<lambda>r. r),
      get_files_options = (\<lambda>r. [''README.md'', ''a.py'']),
      get_filtered_files = (\<lambda>r folders files languages budget. concat files),
      update_repo = (\<lambda>rm u. (True, rm)),
      delete_repo = (\<lambda>rm u. (True, rm)),
      num_tokens_from_string = (\<lambda>t. int (length t)),
      num_messages = (\<lambda>ms. int (length ms)),
      MODELS = [''gpt''],
      create_client_for_model = py_str,
      chat = (\<lambda>c ms t m. [Chunk [Choice (Delta (Some ''Hel''))],
                            Chunk [Choice (Delta (Some ''lo''))]])\<rparr>"

definition example_ui :: ui_input where
  "example_ui =
     \<lparr>custom_repo_url = [], add_clicked = False, refresh_clicked = False,
      repo_url = Some ''https://example.org/demo.git'',
      selected_folder = [], selected_files = [''README.md''], selected_languages = [],
      limit = 100000, count_tokens_clicked = False, update_clicked = False,
      delete_clicked = False, selected_model = Some ''gpt'', temperature = 7 / 10,
      system_prompt = ''You are a helpful assistant.'', clear_chat_clicked = False,
      prompt = None\<rparr>"

definition example_clone :: "string \<Rightarrow> string option" where
  "example_clone url = (if url = ''https://example.org/demo.git'' then Some ''demo'' else None)"

definition example_repo :: "repo_file list" where
  "example_repo =
     [\<lparr>file_path = ''a.py'', file_folder = ''/'', file_language = ''python'', file_size = 10,
       file_content = ''print(1)''\<rparr>,
      \<lparr>file_path = ''b.js'', file_folder = ''/src'', file_language = ''js'', file_size = 20,
       file_content = ''let x = 1;''\<rparr>]"

section \<open>The streaming loop\<close>

lemma upt_shift:
  "map f [Suc 0..<Suc (Suc n)] = f (Suc 0) # map (\<lambda>k. f (Suc k)) [Suc 0..<Suc n]"
proof -
  have "[Suc 0..<Suc (Suc n)] = Suc 0 # map Suc [Suc 0..<Suc n]"
    by (simp add: upt_conv_Cons map_Suc_upt del: upt_Suc)
  then show ?thesis by (simp add: comp_def del: upt_Suc)
qed

text \<open>
  From any handler, a completion whose chunks all carry a string extends the text by the
  increments in order and renders the text once per increment.
\<close>

lemma consume_increments:
  "map chunk_content cs = map (\<lambda>t. Inr (Some t)) ts \<Longrightarrow>
   consume h cs =
     (\<lparr>container = container h
          @ map (\<lambda>k. handler_text h @ concat (take k ts)) [1..<Suc (length ts)],
       handler_text = handler_text h @ concat ts\<rparr>, None)"
proof (induction cs arbitrary: h ts)
  case Nil
  then show ?case by simp
next
  case (Cons c cs)
  then obtain t ts' where ts: "ts = t # ts'" and c: "chunk_content c = Inr (Some t)"
    and rest: "map chunk_content cs = map (\<lambda>t. Inr (Some t)) ts'"
    by (cases ts) auto
  let ?h = "h\<lparr>handler_text := handler_text h @ t,
              container := container h @ [handler_text h @ t]\<rparr>"
  have step: "consume h (c # cs) = consume ?h cs"
    using c by (simp add: process_token_def Let_def)
  show ?case
    unfolding step Cons.IH [OF rest] ts
    by (simp add: upt_shift del: upt_Suc)
qed

section \<open>What the parts of a run leave alone\<close>

lemma foldl_append_message:
  "ss_messages (foldl append_message s ms) = ss_messages s @ ms"
  by (induction ms arbitrary: s) (simp_all add: append_message_def)

lemma registry_buttons_keeps:
  "ss_messages (fst (registry_buttons api ui s)) = ss_messages s"
  "ss_client (fst (registry_buttons api ui s)) = ss_client s"
  "ss_selected_model (fst (registry_buttons api ui s)) = ss_selected_model s"
  by (simp_all add: registry_buttons_def add_custom_repository_def refresh_repos_def
        split: prod.splits)

lemma repo_controls_keeps:
  "ss_messages (fst (snd (repo_controls api ui s))) = ss_messages s"
  "ss_client (fst (snd (repo_controls api ui s))) = ss_client s"
  "ss_selected_model (fst (snd (repo_controls api ui s))) = ss_selected_model s"
  by (simp_all add: repo_controls_def refresh_repos_def Let_def split: prod.splits)

lemma initial_client_keeps:
  "ss_messages (fst (initial_client api ui s)) = ss_messages s"
  "ss_repoManager (fst (initial_client api ui s)) = ss_repoManager s"
  "ss_selected_model (fst (initial_client api ui s)) = ss_selected_model s"
  by (simp_all add: initial_client_def split: option.splits)

lemma main_area_idle:
  "prompt ui = None \<Longrightarrow> fst (snd (main_area api ui s)) = s"
  by (simp add: main_area_def Let_def)

section \<open>The call of the model\<close>

lemma select_client_keeps:
  "ss_messages (fst (select_client api m s)) = ss_messages s"
  "ss_repoManager (fst (select_client api m s)) = ss_repoManager s"
  by (simp_all add: select_client_def Let_def split: option.splits)

lemma select_client_events:
  "Call_chat c msgs t m' \<notin> set (snd (select_client api m s))"
  by (simp add: select_client_def Let_def split: option.splits)

lemma stream_response_result:
  "stream_response cs s = (out, s', evs) \<Longrightarrow>
     Call_chat c msgs t m \<notin> set evs
     \<and> (out = Finished \<or> (\<exists>e. out = Raised e))
     \<and> ss_repoManager s' = ss_repoManager s
     \<and> ss_client s' = ss_client s
     \<and> ss_selected_model s' = ss_selected_model s
     \<and> (if out = Finished then butlast (ss_messages s') else ss_messages s') = ss_messages s"
  by (auto simp: stream_response_def append_message_def split: prod.splits option.splits)

lemma chat_turn_call:
  assumes "chat_turn api ui repo p s = (out, s', evs)"
    and "Call_chat c msgs t m \<in> set evs"
  shows "msgs = assemble_messages (system_prompt ui)
           (get_filtered_files api repo (selected_folder ui) (selected_files ui)
              (selected_languages ui) (limit ui))
           (ss_messages s @ [\<lparr>role = ''user'', content = p\<rparr>])
         \<and> t = temperature ui \<and> m = selected_model ui
         \<and> Some c = ss_client (fst (select_client api (selected_model ui)
                       (append_message s \<lparr>role = ''user'', content = p\<rparr>)))
         \<and> ss_repoManager s' = ss_repoManager s
         \<and> (if out = Finished then butlast (ss_messages s') else ss_messages s')
             = ss_messages s @ [\<lparr>role = ''user'', content = p\<rparr>]"
proof -
  let ?s1 = "append_message s \<lparr>role = ''user'', content = p\<rparr>"
  obtain s2 ev2 where sc: "select_client api (selected_model ui) ?s1 = (s2, ev2)"
    by (cases "select_client api (selected_model ui) ?s1")
  have m2: "ss_messages s2 = ss_messages s @ [\<lparr>role = ''user'', content = p\<rparr>]"
    and r2: "ss_repoManager s2 = ss_repoManager s"
    using select_client_keeps [of api "selected_model ui" ?s1] sc
    by (simp_all add: append_message_def)
  have e2: "Call_chat c msgs t m \<notin> set ev2"
    using select_client_events [of c msgs t m api "selected_model ui" ?s1] sc by simp
  show ?thesis
  proof (cases "ss_client s2")
    case None
    with assms sc e2 show ?thesis by (auto simp: chat_turn_def Let_def)
  next
    case (Some client)
    let ?msgs = "assemble_messages (system_prompt ui)
           (get_filtered_files api repo (selected_folder ui) (selected_files ui)
              (selected_languages ui) (limit ui)) (ss_messages s2)"
    obtain out3 s3 ev5 where sr:
      "stream_response (chat api client ?msgs (temperature ui) (selected_model ui)) s2 = (out3, s3, ev5)"
      by (cases "stream_response (chat api client ?msgs (temperature ui) (selected_model ui)) s2") auto
    note res = stream_response_result [OF sr, of c msgs t m]
    have eq: "out = out3" "s' = s3"
      "evs = [Chat_Message ''user'' p] @ ev2
         @ [Call_get_filtered_files (selected_folder ui) (selected_files ui)
              (selected_languages ui) (limit ui)]
         @ [Sidebar_Sending (selected_files ui) (selected_folder ui),
            Sidebar_Total (num_messages api ?msgs),
            Call_chat client ?msgs (temperature ui) (selected_model ui)] @ ev5"
      using assms(1) sc Some sr by (simp_all add: chat_turn_def Let_def)
    from assms(2) e2 res have "Call_chat c msgs t m = Call_chat client ?msgs (temperature ui) (selected_model ui)"
      unfolding eq by auto
    then show ?thesis
      using res m2 r2 Some sc eq by (auto split: if_splits)
  qed
qed

lemma main_area_call:
  assumes "main_area api ui s = (out, s', evs)"
    and "Call_chat c msgs t m \<in> set evs"
  shows "\<exists>p ev. prompt ui = Some p \<and> p \<noteq> []
          \<and> chat_turn api ui (get_repo_service api (ss_repoManager s) (repo_url ui)) p s
              = (out, s', ev)
          \<and> Call_chat c msgs t m \<in> set ev"
  using assms
  by (auto simp: main_area_def Let_def split: if_splits option.splits prod.splits)

lemma registry_buttons_events:
  "Call_chat c msgs t m \<notin> set (snd (registry_buttons api ui s))"
  by (simp add: registry_buttons_def add_custom_repository_def refresh_repos_def
        split: prod.splits)

lemma repo_controls_events:
  "Call_chat c msgs t m \<notin> set (snd (snd (repo_controls api ui s)))"
  by (simp add: repo_controls_def refresh_repos_def Let_def split: prod.splits)

lemma initial_client_events:
  "Call_chat c msgs t m \<notin> set (snd (initial_client api ui s))"
  by (simp add: initial_client_def split: option.splits)

text \<open>A run that calls the model: how it got there.\<close>

lemma create_app_call:
  assumes "create_app api ui s = (out, s', evs)"
    and "Call_chat c msgs t m \<in> set evs"
  shows "\<exists>s4 p ev.
           ss_messages s4 = (if clear_chat_clicked ui then [] else ss_messages s)
         \<and> ss_selected_model s4 = ss_selected_model s
         \<and> s4 = fst (initial_client api ui s4)
         \<and> (ss_client s \<noteq> None \<longrightarrow> ss_client s4 = ss_client s)
         \<and> (ss_client s = None \<longrightarrow> ss_client s4 = Some (create_client_for_model api (selected_model ui)))
         \<and> prompt ui = Some p \<and> p \<noteq> []
         \<and> chat_turn api ui (get_repo_service api (ss_repoManager s4) (repo_url ui)) p s4
              = (out, s', ev)
         \<and> Call_chat c msgs t m \<in> set ev"
proof -
  obtain s1 ev1 where rb: "registry_buttons api ui s = (s1, ev1)"
    by (cases "registry_buttons api ui s")
  obtain ctl s2 ev2 where rc: "repo_controls api ui s1 = (ctl, s2, ev2)"
    by (cases "repo_controls api ui s1") auto
  have n1: "Call_chat c msgs t m \<notin> set ev1"
    using registry_buttons_events [of c msgs t m api ui s] rb by simp
  have n2: "Call_chat c msgs t m \<notin> set ev2"
    using repo_controls_events [of c msgs t m api ui s1] rc by simp
  have k1: "ss_messages s1 = ss_messages s" "ss_client s1 = ss_client s"
    "ss_selected_model s1 = ss_selected_model s"
    using registry_buttons_keeps [of api ui s] rb by simp_all
  have k2: "ss_messages s2 = ss_messages s" "ss_client s2 = ss_client s"
    "ss_selected_model s2 = ss_selected_model s"
    using repo_controls_keeps [of api ui s1] rc k1 by simp_all
  let ?s3 = "if clear_chat_clicked ui then clear_chat s2 else s2"
  obtain s4 ev4 where ic: "initial_client api ui ?s3 = (s4, ev4)"
    by (cases "initial_client api ui ?s3")
  obtain out5 s5 ev5 where ma: "main_area api ui s4 = (out5, s5, ev5)"
    by (cases "main_area api ui s4") auto
  have n4: "Call_chat c msgs t m \<notin> set ev4"
    using initial_client_events [of c msgs t m api ui ?s3] ic by simp
  have ctl: "ctl = None"
    using assms rb rc n1 n2 by (cases ctl) (auto simp: create_app_def)
  have eq: "out = out5" "s' = s5" "evs = ev1 @ ev2 @ ev4 @ ev5"
    using assms(1) rb rc ctl ic ma by (simp_all add: create_app_def)
  have in5: "Call_chat c msgs t m \<in> set ev5"
    using assms(2) n1 n2 n4 unfolding eq by simp
  have k4: "ss_messages s4 = (if clear_chat_clicked ui then [] else ss_messages s)"
    "ss_selected_model s4 = ss_selected_model s"
    using initial_client_keeps [of api ui ?s3] ic k2 by (simp_all add: clear_chat_def)
  have c4: "ss_client s \<noteq> None \<longrightarrow> ss_client s4 = ss_client s"
    "ss_client s = None \<longrightarrow> ss_client s4 = Some (create_client_for_model api (selected_model ui))"
    "s4 = fst (initial_client api ui s4)"
    using ic k2 by (auto simp: initial_client_def clear_chat_def split: option.splits if_splits)
  from main_area_call [OF ma in5] obtain p ev where
    "prompt ui = Some p" "p \<noteq> []"
    "chat_turn api ui (get_repo_service api (ss_repoManager s4) (repo_url ui)) p s4 = (out5, s5, ev)"
    "Call_chat c msgs t m \<in> set ev" by blast
  with k4 c4 eq show ?thesis
    by (intro exI [of _ s4] exI [of _ p] exI [of _ ev]) simp
qed



section \<open>The small installation at work\<close>

lemmas run_defs = create_app_def registry_buttons_def add_custom_repository_def repo_controls_def
     initial_client_def main_area_def chat_turn_def select_client_def stream_response_def
     StreamHandler_def chunk_content_def process_token_def append_message_def assemble_messages_def
     example_api_def example_ui_def new_session_def py_str_def clear_chat_def refresh_repos_def Let_def

lemma example_turn:
  "fst (create_app example_api (example_ui\<lparr>prompt := Some ''hi''\<rparr>) (new_session example_api)) = Finished"
  "ss_messages (fst (snd (create_app example_api (example_ui\<lparr>prompt := Some ''hi''\<rparr>)
      (new_session example_api))))
     = [\<lparr>role = ''user'', content = ''hi''\<rparr>, \<lparr>role = ''assistant'', content = ''Hello''\<rparr>]"
  "snd (snd (create_app example_api (example_ui\<lparr>prompt := Some ''hi''\<rparr>) (new_session example_api)))
     = [Call_create_client (Some ''gpt''), Title ''Repo: demo'',
        Write ''Chat with LLM using the repository information and files. You can change model settings anytime during the chat.'',
        Selection_Info [''README.md''] [] [] 100000, Chat_Message ''user'' ''hi'',
        Call_create_client (Some ''gpt''),
        Call_get_filtered_files [] [''README.md''] [] 100000,
        Sidebar_Sending [''README.md''] [], Sidebar_Total 3,
        Call_chat ''gpt''
          [\<lparr>role = ''system'', content = ''You are a helpful assistant.''\<rparr>,
           \<lparr>role = ''user'', content = ''README.md''\<rparr>,
           \<lparr>role = ''user'', content = ''hi''\<rparr>]
          (7 / 10) (Some ''gpt''),
        Markdown ''Hel'', Markdown ''Hello'']"
  by (simp_all add: run_defs)


lemma run_triple: "create_app api ui s
  = (fst (create_app api ui s), fst (snd (create_app api ui s)), snd (snd (create_app api ui s)))"
  by simp



section \<open>The client and the selected model\<close>

lemma client_matches_model_cong:
  "ss_client a = ss_client b \<Longrightarrow> ss_selected_model a = ss_selected_model b \<Longrightarrow>
   client_matches_model api a = client_matches_model api b"
  by (auto simp: client_matches_model_def split: option.splits)

lemma selectbox_None: "None \<in> selectbox_values options \<Longrightarrow> options = []"
  by (auto simp: selectbox_values_def split: if_splits)

lemma selectbox_Nil: "selectbox_values [] = {None}"
  by (simp add: selectbox_values_def)

lemma select_client_result:
  "snd (select_client api m s) = (if recorded_model s = m then [] else [Call_create_client m])"
  "ss_client (fst (select_client api m s))
     = (if recorded_model s = m then ss_client s else Some (create_client_for_model api m))"
  "ss_selected_model (fst (select_client api m s)) = Some m"
  by (auto simp: select_client_def recorded_model_def Let_def split: option.splits)

lemma select_client_matches:
  assumes "client_matches_model api s" and "ss_client s \<noteq> None"
    and "m \<in> selectbox_values (MODELS api)"
  shows "ss_client (fst (select_client api m s)) = Some (create_client_for_model api m)"
    and "client_matches_model api (fst (select_client api m s))"
proof -
  show c: "ss_client (fst (select_client api m s)) = Some (create_client_for_model api m)"
  proof (cases "recorded_model s = m")
    case False
    then show ?thesis by (simp add: select_client_result)
  next
    case True
    show ?thesis
    proof (cases m)
      case None
      with assms(3) have "MODELS api = []" by (simp add: selectbox_None)
      with assms(1,2) True None show ?thesis
        by (auto simp: select_client_result client_matches_model_def)
    next
      case (Some x)
      with True have "ss_selected_model s = Some (Some x)"
        by (auto simp: recorded_model_def split: option.splits)
      with assms(1) True Some show ?thesis
        by (simp add: select_client_result client_matches_model_def)
    qed
  qed
  show "client_matches_model api (fst (select_client api m s))"
    using c assms(3) selectbox_None [of "MODELS api"]
    by (cases m) (auto simp: client_matches_model_def select_client_result(3) selectbox_Nil)
qed


lemma chat_turn_state:
  assumes "chat_turn api ui repo p s = (out, s', evs)"
  shows "ss_client s' = ss_client (fst (select_client api (selected_model ui) s))"
    and "ss_selected_model s' = ss_selected_model (fst (select_client api (selected_model ui) s))"
proof -
  let ?s1 = "append_message s \<lparr>role = ''user'', content = p\<rparr>"
  have same: "ss_client (fst (select_client api (selected_model ui) ?s1))
                = ss_client (fst (select_client api (selected_model ui) s))"
    "ss_selected_model (fst (select_client api (selected_model ui) ?s1))
                = ss_selected_model (fst (select_client api (selected_model ui) s))"
    by (simp_all add: select_client_result recorded_model_def append_message_def)
  obtain s2 ev2 where sc: "select_client api (selected_model ui) ?s1 = (s2, ev2)"
    by (cases "select_client api (selected_model ui) ?s1")
  have "ss_client s' = ss_client s2 \<and> ss_selected_model s' = ss_selected_model s2"
  proof (cases "ss_client s2")
    case None
    with assms sc show ?thesis by (auto simp: chat_turn_def Let_def)
  next
    case (Some client)
    let ?msgs = "assemble_messages (system_prompt ui)
           (get_filtered_files api repo (selected_folder ui) (selected_files ui)
              (selected_languages ui) (limit ui)) (ss_messages s2)"
    obtain out3 s3 ev5 where sr:
      "stream_response (chat api client ?msgs (temperature ui) (selected_model ui)) s2
         = (out3, s3, ev5)"
      by (cases "stream_response (chat api client ?msgs (temperature ui) (selected_model ui)) s2")
         auto
    have "s' = s3" using assms sc Some sr by (simp add: chat_turn_def Let_def)
    with stream_response_result [OF sr] show ?thesis by simp
  qed
  with same sc show "ss_client s' = ss_client (fst (select_client api (selected_model ui) s))"
    and "ss_selected_model s' = ss_selected_model (fst (select_client api (selected_model ui) s))"
    by simp_all
qed

lemma main_area_matches:
  assumes "client_matches_model api s" and "ss_client s \<noteq> None"
    and "selected_model ui \<in> selectbox_values (MODELS api)"
  shows "client_matches_model api (fst (snd (main_area api ui s)))"
proof -
  have turn: "client_matches_model api s'"
    if "chat_turn api ui repo p s = (out, s', evs)" for repo p out s' evs
    using chat_turn_state [OF that] select_client_matches(2) [OF assms]
      client_matches_model_cong [of s' "fst (select_client api (selected_model ui) s)" api]
    by simp
  show ?thesis
    using assms(1) turn
    by (auto simp: main_area_def Let_def split: option.splits prod.splits)
qed

lemma initial_client_matches:
  assumes "client_matches_model api s"
    and "selected_model ui \<in> selectbox_values (MODELS api)"
  shows "client_matches_model api (fst (initial_client api ui s))"
    and "ss_client (fst (initial_client api ui s)) \<noteq> None"
  using assms selectbox_None [of "MODELS api"]
  by (auto simp: initial_client_def client_matches_model_def selectbox_Nil split: option.splits)

lemma create_app_matches:
  assumes "client_matches_model api s"
    and "selected_model ui \<in> selectbox_values (MODELS api)"
  shows "client_matches_model api (fst (snd (create_app api ui s)))"
proof -
  obtain s1 ev1 where rb: "registry_buttons api ui s = (s1, ev1)"
    by (cases "registry_buttons api ui s")
  obtain ctl s2 ev2 where rc: "repo_controls api ui s1 = (ctl, s2, ev2)"
    by (cases "repo_controls api ui s1") auto
  have k2: "ss_client s2 = ss_client s" "ss_selected_model s2 = ss_selected_model s"
    using registry_buttons_keeps [of api ui s] rb repo_controls_keeps [of api ui s1] rc
    by simp_all
  have i2: "client_matches_model api s2"
    using client_matches_model_cong [OF k2, of api] assms(1) by simp
  show ?thesis
  proof (cases ctl)
    case (Some out)
    with rb rc i2 show ?thesis by (simp add: create_app_def)
  next
    case None
    let ?s3 = "if clear_chat_clicked ui then clear_chat s2 else s2"
    have i3: "client_matches_model api ?s3"
      using i2 client_matches_model_cong [of "clear_chat s2" s2 api] by (simp add: clear_chat_def)
    obtain s4 ev4 where ic: "initial_client api ui ?s3 = (s4, ev4)"
      by (cases "initial_client api ui ?s3")
    have i4: "client_matches_model api s4" "ss_client s4 \<noteq> None"
      using initial_client_matches [OF i3 assms(2)] ic by simp_all
    obtain out5 s5 ev5 where ma: "main_area api ui s4 = (out5, s5, ev5)"
      by (cases "main_area api ui s4") auto
    have "client_matches_model api s5"
      using main_area_matches [OF i4 assms(2)] ma by simp
    with rb rc None ic ma show ?thesis by (simp add: create_app_def)
  qed
qed

lemma create_app_client:
  assumes "client_matches_model api s"
    and "selected_model ui \<in> selectbox_values (MODELS api)"
    and "Call_chat c msgs t m \<in> set (snd (snd (create_app api ui s)))"
  shows "c = create_client_for_model api m"
proof -
  have run: "create_app api ui s
    = (fst (create_app api ui s), fst (snd (create_app api ui s)), snd (snd (create_app api ui s)))"
    by simp
  from create_app_call [OF run assms(3)] obtain s4 p ev where
    k: "ss_selected_model s4 = ss_selected_model s"
       "ss_client s \<noteq> None \<longrightarrow> ss_client s4 = ss_client s"
       "ss_client s = None \<longrightarrow> ss_client s4 = Some (create_client_for_model api (selected_model ui))"
    and ct: "chat_turn api ui (get_repo_service api (ss_repoManager s4) (repo_url ui)) p s4
               = (fst (create_app api ui s), fst (snd (create_app api ui s)), ev)"
    and ev: "Call_chat c msgs t m \<in> set ev"
    by (elim exE conjE) (rule that, assumption+)
  have i4: "client_matches_model api s4" and c4: "ss_client s4 \<noteq> None"
    using assms(1,2) k selectbox_None [of "MODELS api"]
    by (auto simp: client_matches_model_def selectbox_Nil split: option.splits)
  let ?s1 = "append_message s4 \<lparr>role = ''user'', content = p\<rparr>"
  have i1: "client_matches_model api ?s1" and c1: "ss_client ?s1 \<noteq> None"
    using i4 c4 client_matches_model_cong [of ?s1 s4 api] by (simp_all add: append_message_def)
  from chat_turn_call [OF ct ev] have
    "m = selected_model ui" "Some c = ss_client (fst (select_client api (selected_model ui) ?s1))"
    by simp_all
  with select_client_matches(1) [OF i1 c1 assms(2)] show ?thesis by simp
qed

lemma session_runs_client:
  assumes "client_matches_model api s"
    and "\<forall>ui \<in> set uis. selected_model ui \<in> selectbox_values (MODELS api)"
    and "Call_chat c msgs t m \<in> set (snd (session_runs api uis s))"
  shows "c = create_client_for_model api m"
  using assms
proof (induction uis arbitrary: s)
  case Nil
  then show ?case by simp
next
  case (Cons ui uis)
  obtain out s1 ev where run: "create_app api ui s = (out, s1, ev)"
    by (cases "create_app api ui s") auto
  obtain s2 evs where rest: "session_runs api uis s1 = (s2, evs)"
    by (cases "session_runs api uis s1")
  have i1: "client_matches_model api s1"
    using create_app_matches [of api s ui] Cons.prems(1,2) run by simp
  from Cons.prems(3) run rest have "Call_chat c msgs t m \<in> set ev \<or> Call_chat c msgs t m \<in> set evs"
    by simp
  then show ?case
  proof
    assume "Call_chat c msgs t m \<in> set ev"
    with create_app_client [of api s ui c msgs t m] Cons.prems(1,2) run show ?thesis by simp
  next
    assume "Call_chat c msgs t m \<in> set evs"
    with Cons.IH [OF i1] Cons.prems(2) rest show ?thesis by simp
  qed
qed

lemma session_runs_single:
  "snd (session_runs api [ui] s) = snd (snd (create_app api ui s))"
  by (simp split: prod.splits)

text \<open>
  The claim C9 as it was stated fails: a first run without a prompt stores a client
  created for the model gpt; in the next run a prompt is submitted with the same model
  selected, and the turn creates a client again instead of using the stored one.
\<close>

theorem first_turn_creates_client_again:
  "ss_client (fst (snd (create_app example_api example_ui (new_session example_api))))
     = Some (create_client_for_model example_api (Some ''gpt''))
   \<and> selected_model (example_ui\<lparr>prompt := Some ''hi''\<rparr>) = Some ''gpt''
   \<and> filter creates_client
        (snd (snd (create_app example_api (example_ui\<lparr>prompt := Some ''hi''\<rparr>)
           (fst (snd (create_app example_api example_ui (new_session example_api)))))))
       = [Call_create_client (Some ''gpt'')]"
  by (simp add: run_defs)

section \<open>The existence guards\<close>

lemma registry_buttons_quiet:
  "\<not> list_ex builds_context_or_calls_model (snd (registry_buttons api ui s))"
  by (simp add: registry_buttons_def add_custom_repository_def refresh_repos_def
        split: prod.splits)

lemma repo_controls_absent:
  "\<not> check_if_repo_exists api (ss_repoManager s) (repo_url ui) \<Longrightarrow>
   repo_controls api ui s = (None, s, [])"
  by (simp add: repo_controls_def)

lemma initial_client_quiet:
  "\<not> list_ex builds_context_or_calls_model (snd (initial_client api ui s))"
  by (simp add: initial_client_def split: option.splits)

lemma main_area_absent:
  "\<not> check_if_repo_exists api (ss_repoManager s) (repo_url ui) \<Longrightarrow>
   main_area api ui s =
     (Stopped, s,
      [Info (if isEmpty api (ss_repoManager s)
             then ''Copy the repository URL and click the download button.''
             else py_str (repo_url ui) @ '' does not exist. Please add the repository first.'')])"
  by (simp add: main_area_def)

text \<open>
  Claim C6. If, after the two registry buttons of the sidebar were handled, the selected
  repository URL does not exist in the registry, the run ends at \<^verbatim>\<open>st.stop()\<close>; the last
  thing it shows is an informational message (the hint to add a repository when the
  registry is empty, otherwise that the URL does not exist); no event of the run is a call
  of \<^verbatim>\<open>get_filtered_files\<close> or of the model; and the history is what it was, or empty if
  Clear Chat was pressed, so a submitted prompt is not appended.
\<close>

theorem missing_repository_stops_run:
  assumes "\<not> check_if_repo_exists api (ss_repoManager (fst (registry_buttons api ui s)))
              (repo_url ui)"
  shows "fst (create_app api ui s) = Stopped
       \<and> (\<exists>evs. snd (snd (create_app api ui s)) =
            evs @ [Info (if isEmpty api (ss_repoManager (fst (registry_buttons api ui s)))
                         then ''Copy the repository URL and click the download button.''
                         else py_str (repo_url ui)
                              @ '' does not exist. Please add the repository first.'')])
       \<and> \<not> list_ex builds_context_or_calls_model (snd (snd (create_app api ui s)))
       \<and> ss_messages (fst (snd (create_app api ui s)))
           = (if clear_chat_clicked ui then [] else ss_messages s)"
proof -
  obtain s1 ev1 where rb: "registry_buttons api ui s = (s1, ev1)"
    by (cases "registry_buttons api ui s")
  have absent: "\<not> check_if_repo_exists api (ss_repoManager s1) (repo_url ui)"
    using assms rb by simp
  have q1: "\<not> list_ex builds_context_or_calls_model ev1"
    using registry_buttons_quiet [of api ui s] rb by simp
  have m1: "ss_messages s1 = ss_messages s"
    using registry_buttons_keeps(1) [of api ui s] rb by simp
  let ?s3 = "if clear_chat_clicked ui then clear_chat s1 else s1"
  obtain s4 ev4 where ic: "initial_client api ui ?s3 = (s4, ev4)"
    by (cases "initial_client api ui ?s3")
  have q4: "\<not> list_ex builds_context_or_calls_model ev4"
    using initial_client_quiet [of api ui ?s3] ic by simp
  have k4: "ss_repoManager s4 = ss_repoManager s1"
    "ss_messages s4 = (if clear_chat_clicked ui then [] else ss_messages s)"
    using initial_client_keeps(1,2) [of api ui ?s3] ic m1 by (simp_all add: clear_chat_def)
  have absent4: "\<not> check_if_repo_exists api (ss_repoManager s4) (repo_url ui)"
    using absent k4 by simp
  let ?info = "Info (if isEmpty api (ss_repoManager s1)
                     then ''Copy the repository URL and click the download button.''
                     else py_str (repo_url ui)
                          @ '' does not exist. Please add the repository first.'')"
  have run: "create_app api ui s = (Stopped, s4, (ev1 @ ev4) @ [?info])"
    using rb repo_controls_absent [OF absent] ic main_area_absent [OF absent4] k4(1)
    by (simp add: create_app_def)
  show ?thesis
    unfolding run using q1 q4 k4(2) rb by simp
qed

lemma example_missing:
  "\<not> check_if_repo_exists example_api
        (ss_repoManager (fst (registry_buttons example_api
           (example_ui\<lparr>repo_url := Some ''gone'', prompt := Some ''hi''\<rparr>)
           (new_session example_api))))
        (repo_url (example_ui\<lparr>repo_url := Some ''gone'', prompt := Some ''hi''\<rparr>))"
  by (simp add: run_defs)

theorem missing_repository_stops_run_witness:
  "\<not> check_if_repo_exists example_api
        (ss_repoManager (fst (registry_buttons example_api
           (example_ui\<lparr>repo_url := Some ''gone'', prompt := Some ''hi''\<rparr>)
           (new_session example_api))))
        (repo_url (example_ui\<lparr>repo_url := Some ''gone'', prompt := Some ''hi''\<rparr>))
   \<and> fst (create_app example_api
        (example_ui\<lparr>repo_url := Some ''gone'', prompt := Some ''hi''\<rparr>)
        (new_session example_api)) = Stopped
   \<and> \<not> list_ex builds_context_or_calls_model (snd (snd (create_app example_api
        (example_ui\<lparr>repo_url := Some ''gone'', prompt := Some ''hi''\<rparr>)
        (new_session example_api))))"
  using example_missing missing_repository_stops_run [OF example_missing]
  by blast

section \<open>A failed add\<close>

lemma refresh_repos_no_add: "filter is_add_repo_call (snd (refresh_repos api s)) = []"
  by (simp add: refresh_repos_def)

lemma repo_controls_no_add: "filter is_add_repo_call (snd (snd (repo_controls api ui s))) = []"
  by (simp add: repo_controls_def refresh_repos_def Let_def split: prod.splits)

lemma initial_client_no_add: "filter is_add_repo_call (snd (initial_client api ui s)) = []"
  by (simp add: initial_client_def split: option.splits)

lemma stream_response_no_add: "filter is_add_repo_call (snd (snd (stream_response cs s))) = []"
  by (simp add: stream_response_def filter_empty_conv split: prod.splits option.splits)

lemma chat_turn_no_add: "filter is_add_repo_call (snd (snd (chat_turn api ui repo p s))) = []"
proof -
  have sr: "filter is_add_repo_call ev = []" if "stream_response cs s2 = (out, s3, ev)"
    for cs s2 out s3 ev
    using stream_response_no_add [of cs s2] that by simp
  show ?thesis
    by (auto simp: chat_turn_def select_client_def Let_def
          split: prod.splits option.splits dest!: sr)
qed

lemma main_area_no_add: "filter is_add_repo_call (snd (snd (main_area api ui s))) = []"
proof -
  have ct: "filter is_add_repo_call ev = []" if "chat_turn api ui repo p s = (out, s1, ev)"
    for repo p out s1 ev
    using chat_turn_no_add [of api ui repo p s] that by simp
  show ?thesis
    by (auto simp: main_area_def Let_def split: option.splits prod.splits dest!: ct)
qed

lemma create_app_add_calls:
  "filter is_add_repo_call (snd (snd (create_app api ui s)))
     = filter is_add_repo_call (snd (add_custom_repository api ui s))"
proof -
  obtain s0 ev0 where ac: "add_custom_repository api ui s = (s0, ev0)"
    by (cases "add_custom_repository api ui s")
  let ?r = "if refresh_clicked ui then refresh_repos api s0 else (s0, [])"
  obtain s1 evr where rr: "?r = (s1, evr)" by (cases ?r)
  have nr: "filter is_add_repo_call evr = []"
    using rr refresh_repos_no_add [of api s0] by (auto split: if_splits)
  have rb: "registry_buttons api ui s = (s1, ev0 @ evr)"
    using ac rr by (simp add: registry_buttons_def)
  obtain ctl s2 ev2 where rc: "repo_controls api ui s1 = (ctl, s2, ev2)"
    by (cases "repo_controls api ui s1") auto
  have n2: "filter is_add_repo_call ev2 = []"
    using repo_controls_no_add [of api ui s1] rc by simp
  show ?thesis
  proof (cases ctl)
    case (Some out)
    with rb rc ac nr n2 show ?thesis by (simp add: create_app_def)
  next
    case None
    let ?s3 = "if clear_chat_clicked ui then clear_chat s2 else s2"
    obtain s4 ev4 where ic: "initial_client api ui ?s3 = (s4, ev4)"
      by (cases "initial_client api ui ?s3")
    obtain out5 s5 ev5 where ma: "main_area api ui s4 = (out5, s5, ev5)"
      by (cases "main_area api ui s4") auto
    have n4: "filter is_add_repo_call ev4 = []"
      using initial_client_no_add [of api ui ?s3] ic by simp
    have n5: "filter is_add_repo_call ev5 = []"
      using main_area_no_add [of api ui s4] ma by simp
    from rb rc None ic ma ac nr n2 n4 n5 show ?thesis by (simp add: create_app_def)
  qed
qed

lemma create_app_starts_with_add:
  "\<exists>rest. snd (snd (create_app api ui s)) = snd (add_custom_repository api ui s) @ rest"
  by (auto simp: create_app_def registry_buttons_def Let_def split: prod.splits option.splits)

text \<open>
  Claim C7. Let \<^verbatim>\<open>add_repo\<close> be the registry's add of the specification, and let the clone
  of the URL in the text input fail. When Add Custom Repository is pressed, the add
  returns failure and the same registry; the button's handler leaves the session as it
  was, so the set of known URLs is unchanged, and shows the error message with the URL;
  the message is among what the run shows; and the whole run calls \<^verbatim>\<open>add_repo\<close> exactly
  once, so nothing is retried.
\<close>

theorem failed_add_reports_error:
  assumes "add_repo api = registry_add clone"
    and "clone (custom_repo_url ui) = None"
    and "add_clicked ui"
  shows "registry_add clone (ss_repoManager s) (custom_repo_url ui) = (False, ss_repoManager s)
       \<and> add_custom_repository api ui s =
           (s, [Call_add_repo (custom_repo_url ui),
                Error (''Repository add failed: '' @ custom_repo_url ui)])
       \<and> known_urls (ss_repoManager (fst (add_custom_repository api ui s)))
           = known_urls (ss_repoManager s)
       \<and> filter is_add_repo_call (snd (snd (create_app api ui s)))
           = [Call_add_repo (custom_repo_url ui)]
       \<and> Error (''Repository add failed: '' @ custom_repo_url ui)
           \<in> set (snd (snd (create_app api ui s)))"
proof -
  have add: "registry_add clone (ss_repoManager s) (custom_repo_url ui) = (False, ss_repoManager s)"
    using assms(2) by (simp add: registry_add_def)
  have button: "add_custom_repository api ui s =
           (s, [Call_add_repo (custom_repo_url ui),
                Error (''Repository add failed: '' @ custom_repo_url ui)])"
    using assms(1,3) add by (simp add: add_custom_repository_def)
  have calls: "filter is_add_repo_call (snd (snd (create_app api ui s)))
           = [Call_add_repo (custom_repo_url ui)]"
    by (simp add: create_app_add_calls button)
  have shown: "Error (''Repository add failed: '' @ custom_repo_url ui)
           \<in> set (snd (snd (create_app api ui s)))"
    using create_app_starts_with_add [of api ui s] button by auto
  from add button calls shown show ?thesis by simp
qed

theorem failed_add_reports_error_witness:
  "add_repo (example_api\<lparr>add_repo := registry_add example_clone\<rparr>) = registry_add example_clone
   \<and> example_clone (custom_repo_url
        (example_ui\<lparr>custom_repo_url := ''https://example.org/none.git'', add_clicked := True\<rparr>))
       = None
   \<and> add_clicked
        (example_ui\<lparr>custom_repo_url := ''https://example.org/none.git'', add_clicked := True\<rparr>)
   \<and> add_custom_repository (example_api\<lparr>add_repo := registry_add example_clone\<rparr>)
        (example_ui\<lparr>custom_repo_url := ''https://example.org/none.git'', add_clicked := True\<rparr>)
        (new_session example_api) =
       (new_session example_api,
        [Call_add_repo ''https://example.org/none.git'',
         Error ''Repository add failed: https://example.org/none.git''])"
proof -
  let ?api = "example_api\<lparr>add_repo := registry_add example_clone\<rparr>"
  let ?ui = "example_ui\<lparr>custom_repo_url := ''https://example.org/none.git'',
               add_clicked := True\<rparr>"
  have h1: "add_repo ?api = registry_add example_clone" by simp
  have h2: "example_clone (custom_repo_url ?ui) = None" by (simp add: example_clone_def)
  have h3: "add_clicked ?ui" by simp
  from failed_add_reports_error [OF h1 h2 h3, of "new_session example_api"] h1 h2 h3
  show ?thesis by simp
qed

section \<open>The content selector of the specification\<close>

lemma within_limit_subset: "set (within_limit budget used fs) \<subseteq> set fs"
  by (induction fs arbitrary: used) auto

lemma within_limit_sum:
  "used \<le> budget \<Longrightarrow>
   used + (\<Sum>f\<leftarrow>within_limit budget used fs. int (file_size f)) \<le> budget"
proof (induction fs arbitrary: used)
  case Nil
  then show ?case by simp
next
  case (Cons f fs)
  show ?case
  proof (cases "used + int (file_size f) > budget")
    case True
    with Cons.prems show ?thesis by simp
  next
    case False
    then have "used + int (file_size f) \<le> budget" by simp
    from Cons.IH [OF this] False show ?thesis by (simp add: add.assoc)
  qed
qed

lemma within_limit_prefix: "\<exists>rest. fs = within_limit budget used fs @ rest"
  by (induction fs arbitrary: used) auto

text \<open>
  Claim C1. For every repository, every selection of folders, files and languages and
  every limit, the text the selector returns is the concatenation of the rendered files
  it includes, and each included file is a file of the repository that matches every
  filter that is not empty: its folder is one of the selected folders unless none is
  selected, its path one of the selected files unless none is selected, and its language
  one of the selected languages unless none is selected.
\<close>

theorem selection_matches_every_filter:
  "spec_select separator repo folders files languages budget
     = concat (map (render_file separator) (included_files repo folders files languages budget))
   \<and> (\<forall>f \<in> set (included_files repo folders files languages budget).
         f \<in> set repo
       \<and> (folders = [] \<or> file_folder f \<in> set folders)
       \<and> (files = [] \<or> file_path f \<in> set files)
       \<and> (languages = [] \<or> file_language f \<in> set languages))"
proof -
  have "set (included_files repo folders files languages budget)
          \<subseteq> set (filter (file_matches folders files languages) repo)"
    unfolding included_files_def by (rule within_limit_subset)
  then show ?thesis
    by (auto simp: spec_select_def file_matches_def)
qed

text \<open>
  Claim C2. For every positive limit the sizes of the included files sum to at most the
  limit; the text returned consists of whole rendered files, the included files being a
  prefix of the matching files in their order; and when the first matching file is larger
  than the limit, the text returned is empty.
\<close>

theorem selection_within_limit:
  assumes "0 < budget"
  shows "(\<Sum>f\<leftarrow>included_files repo folders files languages budget. int (file_size f)) \<le> budget
       \<and> spec_select separator repo folders files languages budget
           = concat (map (render_file separator)
               (included_files repo folders files languages budget))
       \<and> (\<exists>rest. filter (file_matches folders files languages) repo
                    = included_files repo folders files languages budget @ rest)
       \<and> (\<forall>f fs. filter (file_matches folders files languages) repo = f # fs
              \<and> budget < int (file_size f)
            \<longrightarrow> spec_select separator repo folders files languages budget = [])"
proof -
  have "0 + (\<Sum>f\<leftarrow>within_limit budget 0 (filter (file_matches folders files languages) repo).
               int (file_size f)) \<le> budget"
    using assms by (intro within_limit_sum) simp
  moreover have "\<exists>rest. filter (file_matches folders files languages) repo
                    = included_files repo folders files languages budget @ rest"
    unfolding included_files_def by (rule within_limit_prefix)
  ultimately show ?thesis
    by (auto simp: included_files_def spec_select_def)
qed

theorem selection_matches_every_filter_witness:
  "\<lparr>file_path = ''a.py'', file_folder = ''/'', file_language = ''python'', file_size = 10,
     file_content = ''print(1)''\<rparr>
     \<in> set (included_files example_repo [] [] [''python''] 100)
   \<and> file_language \<lparr>file_path = ''a.py'', file_folder = ''/'', file_language = ''python'',
        file_size = 10, file_content = ''print(1)''\<rparr> \<in> set [''python'']
   \<and> spec_select (\<lambda>p. p @ '': '') example_repo [] [] [''python''] 100 = ''a.py: print(1)''"
proof -
  let ?a = "\<lparr>file_path = ''a.py'', file_folder = ''/'', file_language = ''python'',
              file_size = 10, file_content = ''print(1)''\<rparr>"
  have inc: "included_files example_repo [] [] [''python''] 100 = [?a]"
    by (simp add: included_files_def example_repo_def file_matches_def)
  have mem: "?a \<in> set (included_files example_repo [] [] [''python''] 100)"
    by (simp add: inc)
  have out: "spec_select (\<lambda>p. p @ '': '') example_repo [] [] [''python''] 100 = ''a.py: print(1)''"
    using selection_matches_every_filter
      [of "\<lambda>p. p @ '': ''" example_repo "[]" "[]" "[''python'']" 100, THEN conjunct1]
    by (simp add: inc render_file_def)
  from selection_matches_every_filter
      [of "\<lambda>p. p @ '': ''" example_repo "[]" "[]" "[''python'']" 100, THEN conjunct2,
        THEN bspec, OF mem] mem out
  show ?thesis by simp
qed

theorem selection_within_limit_witness:
  "(0::int) < 5
   \<and> (\<Sum>f\<leftarrow>included_files example_repo [] [] [] 5. int (file_size f)) \<le> 5
   \<and> filter (file_matches [] [] []) example_repo
       = \<lparr>file_path = ''a.py'', file_folder = ''/'', file_language = ''python'', file_size = 10,
           file_content = ''print(1)''\<rparr>
         # [\<lparr>file_path = ''b.js'', file_folder = ''/src'', file_language = ''js'',
             file_size = 20, file_content = ''let x = 1;''\<rparr>]
   \<and> spec_select (\<lambda>p. p @ '': '') example_repo [] [] [] 5 = []"
proof -
  have h: "(0::int) < 5" by simp
  have first: "filter (file_matches [] [] []) example_repo
       = \<lparr>file_path = ''a.py'', file_folder = ''/'', file_language = ''python'', file_size = 10,
           file_content = ''print(1)''\<rparr>
         # [\<lparr>file_path = ''b.js'', file_folder = ''/src'', file_language = ''js'',
             file_size = 20, file_content = ''let x = 1;''\<rparr>]"
    by (simp add: example_repo_def file_matches_def)
  note inst = selection_within_limit [OF h, of example_repo "[]" "[]" "[]" "\<lambda>p. p @ '': ''"]
  have small: "spec_select (\<lambda>p. p @ '': '') example_repo [] [] [] 5 = []"
    using inst [THEN conjunct2, THEN conjunct2, THEN conjunct2, THEN spec, THEN spec, THEN mp,
      OF conjI, OF first]
    by simp
  from inst [THEN conjunct1] h first small show ?thesis by simp
qed

section \<open>A turn within a run\<close>

lemma recorded_model_append [simp]:
  "recorded_model (append_message s x) = recorded_model s"
  by (simp add: recorded_model_def append_message_def)

lemma stream_response_renders:
  "stream_response cs s = (out, s', evs) \<Longrightarrow> filter creates_client evs = []"
  by (auto simp: stream_response_def filter_empty_conv split: prod.splits option.splits)

text \<open>A turn that calls the model: the events around the call, and where the reply goes.\<close>

lemma chat_turn_stream:
  assumes "chat_turn api ui repo p s = (out, s', evs)"
    and "Call_chat c msgs t m \<in> set evs"
  shows "\<exists>s2 pre post.
           evs = pre @ Call_chat c msgs t m # post
         \<and> stream_response (chat api c msgs t m) s2 = (out, s', post)
         \<and> ss_messages s2 = ss_messages s @ [\<lparr>role = ''user'', content = p\<rparr>]
         \<and> filter creates_client evs
             = (if recorded_model s = selected_model ui then []
                else [Call_create_client (selected_model ui)])"
proof -
  let ?s1 = "append_message s \<lparr>role = ''user'', content = p\<rparr>"
  obtain s2 ev2 where sc: "select_client api (selected_model ui) ?s1 = (s2, ev2)"
    by (cases "select_client api (selected_model ui) ?s1")
  have m2: "ss_messages s2 = ss_messages s @ [\<lparr>role = ''user'', content = p\<rparr>]"
    using select_client_keeps(1) [of api "selected_model ui" ?s1] sc
    by (simp add: append_message_def)
  have e2: "Call_chat c msgs t m \<notin> set ev2"
    using select_client_events [of c msgs t m api "selected_model ui" ?s1] sc by simp
  have c2: "ev2 = (if recorded_model s = selected_model ui then []
                   else [Call_create_client (selected_model ui)])"
    using select_client_result(1) [of api "selected_model ui" ?s1] sc by simp
  show ?thesis
  proof (cases "ss_client s2")
    case None
    with assms sc e2 show ?thesis by (auto simp: chat_turn_def Let_def)
  next
    case (Some client)
    let ?msgs = "assemble_messages (system_prompt ui)
           (get_filtered_files api repo (selected_folder ui) (selected_files ui)
              (selected_languages ui) (limit ui)) (ss_messages s2)"
    let ?call = "Call_chat client ?msgs (temperature ui) (selected_model ui)"
    let ?pre = "[Chat_Message ''user'' p] @ ev2
         @ [Call_get_filtered_files (selected_folder ui) (selected_files ui)
              (selected_languages ui) (limit ui)]
         @ [Sidebar_Sending (selected_files ui) (selected_folder ui),
            Sidebar_Total (num_messages api ?msgs)]"
    obtain out3 s3 ev5 where sr:
      "stream_response (chat api client ?msgs (temperature ui) (selected_model ui)) s2
         = (out3, s3, ev5)"
      by (cases "stream_response (chat api client ?msgs (temperature ui) (selected_model ui)) s2")
         auto
    note res = stream_response_result [OF sr, of c msgs t m]
    have eq: "out = out3" "s' = s3" "evs = ?pre @ ?call # ev5"
      using assms(1) sc Some sr by (simp_all add: chat_turn_def Let_def)
    from assms(2) e2 res have call: "Call_chat c msgs t m = ?call"
      unfolding eq by auto
    have sr': "stream_response (chat api c msgs t m) s2 = (out, s', ev5)"
      using sr call eq by simp
    have cr: "filter creates_client evs
             = (if recorded_model s = selected_model ui then []
                else [Call_create_client (selected_model ui)])"
      unfolding eq using stream_response_renders [OF sr] c2 by simp
    show ?thesis
      using eq(3) call sr' m2 cr
      by (intro exI [of _ s2] exI [of _ ?pre] exI [of _ ev5]) simp
  qed
qed

lemma main_area_turn:
  assumes "main_area api ui s = (out, s', evs)"
    and "Call_chat c msgs t m \<in> set evs"
  shows "\<exists>p ev pre. prompt ui = Some p \<and> p \<noteq> []
          \<and> chat_turn api ui (get_repo_service api (ss_repoManager s) (repo_url ui)) p s
              = (out, s', ev)
          \<and> Call_chat c msgs t m \<in> set ev
          \<and> evs = pre @ ev \<and> filter creates_client pre = []"
  using assms
  by (auto simp: main_area_def Let_def filter_empty_conv
        split: if_splits option.splits prod.splits)

lemma registry_buttons_no_create:
  "filter creates_client (snd (registry_buttons api ui s)) = []"
  by (simp add: registry_buttons_def add_custom_repository_def refresh_repos_def
        split: prod.splits)

lemma repo_controls_no_create:
  "filter creates_client (snd (snd (repo_controls api ui s))) = []"
  by (simp add: repo_controls_def refresh_repos_def Let_def split: prod.splits)

lemma create_app_turn:
  assumes "create_app api ui s = (out, s', evs)"
    and "Call_chat c msgs t m \<in> set evs"
  shows "\<exists>s4 p ev pre.
           ss_messages s4 = (if clear_chat_clicked ui then [] else ss_messages s)
         \<and> ss_selected_model s4 = ss_selected_model s
         \<and> ss_client s4 = (case ss_client s of
                             None \<Rightarrow> Some (create_client_for_model api (selected_model ui))
                           | Some c0 \<Rightarrow> Some c0)
         \<and> prompt ui = Some p \<and> p \<noteq> []
         \<and> chat_turn api ui (get_repo_service api (ss_repoManager s4) (repo_url ui)) p s4
              = (out, s', ev)
         \<and> Call_chat c msgs t m \<in> set ev
         \<and> evs = pre @ ev
         \<and> filter creates_client pre
             = (case ss_client s of None \<Rightarrow> [Call_create_client (selected_model ui)]
                | Some c0 \<Rightarrow> [])"
proof -
  obtain s1 ev1 where rb: "registry_buttons api ui s = (s1, ev1)"
    by (cases "registry_buttons api ui s")
  obtain ctl s2 ev2 where rc: "repo_controls api ui s1 = (ctl, s2, ev2)"
    by (cases "repo_controls api ui s1") auto
  have n1: "Call_chat c msgs t m \<notin> set ev1" "filter creates_client ev1 = []"
    using registry_buttons_events [of c msgs t m api ui s]
      registry_buttons_no_create [of api ui s] rb by simp_all
  have n2: "Call_chat c msgs t m \<notin> set ev2" "filter creates_client ev2 = []"
    using repo_controls_events [of c msgs t m api ui s1]
      repo_controls_no_create [of api ui s1] rc by simp_all
  have k1: "ss_messages s1 = ss_messages s" "ss_client s1 = ss_client s"
    "ss_selected_model s1 = ss_selected_model s"
    using registry_buttons_keeps [of api ui s] rb by simp_all
  have k2: "ss_messages s2 = ss_messages s" "ss_client s2 = ss_client s"
    "ss_selected_model s2 = ss_selected_model s"
    using repo_controls_keeps [of api ui s1] rc k1 by simp_all
  let ?s3 = "if clear_chat_clicked ui then clear_chat s2 else s2"
  obtain s4 ev4 where ic: "initial_client api ui ?s3 = (s4, ev4)"
    by (cases "initial_client api ui ?s3")
  obtain out5 s5 ev5 where ma: "main_area api ui s4 = (out5, s5, ev5)"
    by (cases "main_area api ui s4") auto
  have n4: "Call_chat c msgs t m \<notin> set ev4"
    using initial_client_events [of c msgs t m api ui ?s3] ic by simp
  have ctl: "ctl = None"
    using assms rb rc n1 n2 by (cases ctl) (auto simp: create_app_def)
  have eq: "out = out5" "s' = s5" "evs = ev1 @ ev2 @ ev4 @ ev5"
    using assms(1) rb rc ctl ic ma by (simp_all add: create_app_def)
  have in5: "Call_chat c msgs t m \<in> set ev5"
    using assms(2) n1 n2 n4 unfolding eq by simp
  have k4: "ss_messages s4 = (if clear_chat_clicked ui then [] else ss_messages s)"
    "ss_selected_model s4 = ss_selected_model s"
    using initial_client_keeps [of api ui ?s3] ic k2 by (simp_all add: clear_chat_def)
  have c4: "ss_client s4 = (case ss_client s of
                             None \<Rightarrow> Some (create_client_for_model api (selected_model ui))
                           | Some c0 \<Rightarrow> Some c0)"
    "ev4 = (case ss_client s of None \<Rightarrow> [Call_create_client (selected_model ui)]
                | Some c0 \<Rightarrow> [])"
    using ic k2
    by (cases "ss_client s"; auto simp: initial_client_def clear_chat_def split: if_splits)+
  from main_area_turn [OF ma in5] obtain p ev pre where t:
    "prompt ui = Some p" "p \<noteq> []"
    "chat_turn api ui (get_repo_service api (ss_repoManager s4) (repo_url ui)) p s4 = (out5, s5, ev)"
    "Call_chat c msgs t m \<in> set ev" "ev5 = pre @ ev" "filter creates_client pre = []"
    by blast
  have pre: "evs = (ev1 @ ev2 @ ev4 @ pre) @ ev"
    "filter creates_client (ev1 @ ev2 @ ev4 @ pre)
       = (case ss_client s of None \<Rightarrow> [Call_create_client (selected_model ui)]
                | Some c0 \<Rightarrow> [])"
    using eq(3) t(5,6) n1(2) n2(2) c4(2) by simp_all
  from k4 c4(1) t(1-4) eq(1,2) pre show ?thesis
    by (intro exI [of _ s4] exI [of _ p] exI [of _ ev] exI [of _ "ev1 @ ev2 @ ev4 @ pre"]) simp
qed

section \<open>The reply\<close>

text \<open>
  Claim C4. Let the completion be a finite sequence of chunks whose first choice carries
  the text increments \<open>ts\<close>, in this order. Then the loop consumes all of them without an
  exception and the k-th text it renders is the concatenation of the first k increments
  (for k from 1 to the number of increments); the history becomes the history before
  followed by one assistant message whose content is the concatenation of all
  increments, and nothing else of the session changes. In a run of the script whose
  call of the model is answered by this completion, the renders are the events after
  the call, the run finishes, and the history it leaves is the history sent to the model
  followed by that assistant message.
\<close>

theorem stream_response_concatenates:
  assumes "map chunk_content completion = map (\<lambda>t. Inr (Some t)) ts"
  shows "consume (StreamHandler []) completion =
           (\<lparr>container = map (\<lambda>k. concat (take k ts)) [1..<Suc (length ts)],
             handler_text = concat ts\<rparr>, None)
         \<and> stream_response completion s =
           (Finished,
            s\<lparr>ss_messages := ss_messages s @ [\<lparr>role = ''assistant'', content = concat ts\<rparr>]\<rparr>,
            map (\<lambda>k. Markdown (concat (take k ts))) [1..<Suc (length ts)])
         \<and> (create_app api ui s0 = (out, s', evs) \<and> Call_chat c msgs t m \<in> set evs
              \<and> chat api c msgs t m = completion
            \<longrightarrow> out = Finished
              \<and> ss_messages s' = drop 2 msgs @ [\<lparr>role = ''assistant'', content = concat ts\<rparr>]
              \<and> (\<exists>pre. evs = pre @ Call_chat c msgs t m
                       # map (\<lambda>k. Markdown (concat (take k ts))) [1..<Suc (length ts)]))"
proof -
  have c: "consume (StreamHandler []) completion =
           (\<lparr>container = map (\<lambda>k. concat (take k ts)) [1..<Suc (length ts)],
             handler_text = concat ts\<rparr>, None)"
    using consume_increments [OF assms, of "StreamHandler []"]
    by (simp add: StreamHandler_def del: upt_Suc)
  have sr: "stream_response completion s2 =
           (Finished,
            s2\<lparr>ss_messages := ss_messages s2 @ [\<lparr>role = ''assistant'', content = concat ts\<rparr>]\<rparr>,
            map (\<lambda>k. Markdown (concat (take k ts))) [1..<Suc (length ts)])" for s2
    unfolding stream_response_def c by (simp add: comp_def append_message_def del: upt_Suc)
  have run: "out = Finished
              \<and> ss_messages s' = drop 2 msgs @ [\<lparr>role = ''assistant'', content = concat ts\<rparr>]
              \<and> (\<exists>pre. evs = pre @ Call_chat c msgs t m
                       # map (\<lambda>k. Markdown (concat (take k ts))) [1..<Suc (length ts)])"
    if app: "create_app api ui s0 = (out, s', evs)" and call: "Call_chat c msgs t m \<in> set evs"
      and answer: "chat api c msgs t m = completion"
  proof -
    from create_app_turn [OF app call] obtain s4 p ev pre0 where
      ct: "chat_turn api ui (get_repo_service api (ss_repoManager s4) (repo_url ui)) p s4
              = (out, s', ev)"
      and ev: "Call_chat c msgs t m \<in> set ev" and evs: "evs = pre0 @ ev"
      by (elim exE conjE) (rule that, assumption+)
    from chat_turn_call [OF ct ev] have msgs: "drop 2 msgs = ss_messages s4 @ [\<lparr>role = ''user'', content = p\<rparr>]"
      by (simp add: assemble_messages_def)
    from chat_turn_stream [OF ct ev] obtain s2 pre post where
      ev': "ev = pre @ Call_chat c msgs t m # post"
      and st: "stream_response (chat api c msgs t m) s2 = (out, s', post)"
      and m2: "ss_messages s2 = ss_messages s4 @ [\<lparr>role = ''user'', content = p\<rparr>]"
      by (elim exE conjE) (rule that, assumption+)
    from st answer sr [of s2] have
      "out = Finished"
      "s' = s2\<lparr>ss_messages := ss_messages s2 @ [\<lparr>role = ''assistant'', content = concat ts\<rparr>]\<rparr>"
      "post = map (\<lambda>k. Markdown (concat (take k ts))) [1..<Suc (length ts)]"
      by simp_all
    with msgs m2 evs ev' show ?thesis
      by (auto simp del: upt_Suc intro: exI [of _ "pre0 @ pre"])
  qed
  from c sr [of s] run show ?thesis by blast
qed

theorem stream_response_concatenates_witness:
  "map chunk_content
     [Chunk [Choice (Delta (Some ''Hel''))], Chunk [Choice (Delta (Some ''lo''))]]
     = map (\<lambda>t. Inr (Some t)) [''Hel'', ''lo'']
   \<and> Call_chat ''gpt''
       [\<lparr>role = ''system'', content = ''You are a helpful assistant.''\<rparr>,
        \<lparr>role = ''user'', content = ''README.md''\<rparr>,
        \<lparr>role = ''user'', content = ''hi''\<rparr>]
       (7 / 10) (Some ''gpt'')
       \<in> set (snd (snd (create_app example_api (example_ui\<lparr>prompt := Some ''hi''\<rparr>)
                (new_session example_api))))
   \<and> chat example_api ''gpt''
       [\<lparr>role = ''system'', content = ''You are a helpful assistant.''\<rparr>,
        \<lparr>role = ''user'', content = ''README.md''\<rparr>,
        \<lparr>role = ''user'', content = ''hi''\<rparr>]
       (7 / 10) (Some ''gpt'')
       = [Chunk [Choice (Delta (Some ''Hel''))], Chunk [Choice (Delta (Some ''lo''))]]
   \<and> fst (create_app example_api (example_ui\<lparr>prompt := Some ''hi''\<rparr>)
        (new_session example_api)) = Finished
   \<and> ss_messages (fst (snd (create_app example_api (example_ui\<lparr>prompt := Some ''hi''\<rparr>)
        (new_session example_api))))
      = [\<lparr>role = ''user'', content = ''hi''\<rparr>, \<lparr>role = ''assistant'', content = ''Hello''\<rparr>]
   \<and> stream_response
       [Chunk [Choice (Delta (Some ''Hel''))], Chunk [Choice (Delta (Some ''lo''))]]
       (new_session example_api) =
     (Finished,
      (new_session example_api)
        \<lparr>ss_messages := [\<lparr>role = ''assistant'', content = ''Hello''\<rparr>]\<rparr>,
      [Markdown ''Hel'', Markdown ''Hello''])"
proof -
  let ?ui = "example_ui\<lparr>prompt := Some ''hi''\<rparr>"
  let ?s = "new_session example_api"
  let ?msgs = "[\<lparr>role = ''system'', content = ''You are a helpful assistant.''\<rparr>,
        \<lparr>role = ''user'', content = ''README.md''\<rparr>,
        \<lparr>role = ''user'', content = ''hi''\<rparr>]"
  let ?cs = "[Chunk [Choice (Delta (Some ''Hel''))], Chunk [Choice (Delta (Some ''lo''))]]"
  have h: "map chunk_content ?cs = map (\<lambda>t. Inr (Some t)) [''Hel'', ''lo'']"
    by (simp add: chunk_content_def)
  have call: "Call_chat ''gpt'' ?msgs (7 / 10) (Some ''gpt'')
                \<in> set (snd (snd (create_app example_api ?ui ?s)))"
    by (simp add: example_turn(3))
  have answer: "chat example_api ''gpt'' ?msgs (7 / 10) (Some ''gpt'') = ?cs"
    by (simp add: example_api_def)
  note inst = stream_response_concatenates [OF h, of ?s example_api ?ui ?s
      "fst (create_app example_api ?ui ?s)" "fst (snd (create_app example_api ?ui ?s))"
      "snd (snd (create_app example_api ?ui ?s))" "''gpt''" ?msgs "7 / 10" "Some ''gpt''"]
  have run: "fst (create_app example_api ?ui ?s) = Finished
       \<and> ss_messages (fst (snd (create_app example_api ?ui ?s)))
           = drop 2 ?msgs @ [\<lparr>role = ''assistant'', content = concat [''Hel'', ''lo'']\<rparr>]"
    using inst [THEN conjunct2, THEN conjunct2, THEN mp, OF conjI [OF run_triple conjI [OF call answer]]]
    by blast
  from h call answer run inst [THEN conjunct2, THEN conjunct1] show ?thesis
    by (simp add: upt_conv_Cons new_session_def)
qed

section \<open>The client of a turn\<close>

lemma create_app_clients:
  assumes "create_app api ui s = (out, s', evs)"
    and "Call_chat c msgs t m \<in> set evs"
  shows "m = selected_model ui
       \<and> filter creates_client evs
           = (case ss_client s of None \<Rightarrow> [Call_create_client m] | Some c0 \<Rightarrow> [])
             @ (if recorded_model s = m then [] else [Call_create_client m])
       \<and> Some c = (if recorded_model s = m
                   then (case ss_client s of
                           None \<Rightarrow> Some (create_client_for_model api m)
                         | Some c0 \<Rightarrow> Some c0)
                   else Some (create_client_for_model api m))
       \<and> ss_client s' = Some c
       \<and> recorded_model s' = m"
proof -
  from create_app_turn [OF assms] obtain s4 p ev pre where
    sel4: "ss_selected_model s4 = ss_selected_model s"
    and c4: "ss_client s4 = (case ss_client s of
                             None \<Rightarrow> Some (create_client_for_model api (selected_model ui))
                           | Some c0 \<Rightarrow> Some c0)"
    and ct: "chat_turn api ui (get_repo_service api (ss_repoManager s4) (repo_url ui)) p s4
              = (out, s', ev)"
    and ev: "Call_chat c msgs t m \<in> set ev"
    and evs: "evs = pre @ ev"
    and pre: "filter creates_client pre
             = (case ss_client s of None \<Rightarrow> [Call_create_client (selected_model ui)]
                | Some c0 \<Rightarrow> [])"
    by (elim exE conjE) (rule that, assumption+)
  have r4: "recorded_model s4 = recorded_model s"
    using sel4 by (simp add: recorded_model_def)
  let ?s1 = "append_message s4 \<lparr>role = ''user'', content = p\<rparr>"
  from chat_turn_call [OF ct ev] have m: "m = selected_model ui"
    and c: "Some c = ss_client (fst (select_client api (selected_model ui) ?s1))"
    by simp_all
  have c1: "ss_client ?s1 = ss_client s4" by (simp add: append_message_def)
  from chat_turn_stream [OF ct ev] have turn: "filter creates_client ev
             = (if recorded_model s4 = selected_model ui then []
                else [Call_create_client (selected_model ui)])"
    by blast
  have after: "ss_client s' = ss_client (fst (select_client api (selected_model ui) s4))"
    "ss_selected_model s' = Some (selected_model ui)"
    using chat_turn_state [OF ct] by (simp_all add: select_client_result(3))
  have "ss_client (fst (select_client api (selected_model ui) s4))
          = ss_client (fst (select_client api (selected_model ui) ?s1))"
    by (simp add: select_client_result(2) c1)
  with after c have s': "ss_client s' = Some c" "recorded_model s' = selected_model ui"
    by (simp_all add: recorded_model_def)
  show ?thesis
    using m c s' evs pre turn r4 c1 c4
    by (cases "ss_client s") (simp_all add: select_client_result(2))
qed

text \<open>
  Claim C9, as amended. In every session, whatever the sequence of runs (each with a
  model that the select box can return), the client of every call of the model is the
  one \<^verbatim>\<open>create_client_for_model\<close> creates for the model selected in that run. In a run
  that calls the model, the model of the call is the selected one; the turn creates a new
  client exactly when the selected model differs from the model recorded in the session
  by the last turn (none before the first turn of the session, even though line 103
  creates a client when the session has none); otherwise the call is made by the client
  stored in the session, and no client is created after line 103. After the run the
  session stores the client of the call and records its model.
\<close>

theorem client_created_for_selected_model:
  "((\<forall>ui \<in> set uis. selected_model ui \<in> selectbox_values (MODELS api))
      \<and> Call_chat c msgs t m \<in> set (snd (session_runs api uis (new_session api)))
     \<longrightarrow> c = create_client_for_model api m)
   \<and> (create_app api ui s = (out, s', evs) \<and> Call_chat c' msgs' t' m' \<in> set evs
     \<longrightarrow> m' = selected_model ui
       \<and> filter creates_client evs
           = (case ss_client s of None \<Rightarrow> [Call_create_client m'] | Some c0 \<Rightarrow> [])
             @ (if recorded_model s = m' then [] else [Call_create_client m'])
       \<and> Some c' = (if recorded_model s = m'
                    then (case ss_client s of
                            None \<Rightarrow> Some (create_client_for_model api m')
                          | Some c0 \<Rightarrow> Some c0)
                    else Some (create_client_for_model api m'))
       \<and> ss_client s' = Some c'
       \<and> recorded_model s' = m')"
proof -
  have inv: "client_matches_model api (new_session api)"
    by (simp add: client_matches_model_def new_session_def)
  have session: "c = create_client_for_model api m"
    if "\<forall>ui \<in> set uis. selected_model ui \<in> selectbox_values (MODELS api)"
      and "Call_chat c msgs t m \<in> set (snd (session_runs api uis (new_session api)))"
    using session_runs_client [OF inv that] .
  from session create_app_clients [of api ui s out s' evs c' msgs' t' m'] show ?thesis
    by blast
qed

lemma example_second_turn:
  "fst (create_app example_api (example_ui\<lparr>prompt := Some ''more''\<rparr>)
     \<lparr>ss_repoManager = RepoManager example_api,
      ss_messages = [\<lparr>role = ''user'', content = ''hi''\<rparr>,
                     \<lparr>role = ''assistant'', content = ''Hello''\<rparr>],
      ss_client = Some ''gpt'', ss_selected_model = Some (Some ''gpt'')\<rparr>) = Finished"
  "snd (snd (create_app example_api (example_ui\<lparr>prompt := Some ''more''\<rparr>)
     \<lparr>ss_repoManager = RepoManager example_api,
      ss_messages = [\<lparr>role = ''user'', content = ''hi''\<rparr>,
                     \<lparr>role = ''assistant'', content = ''Hello''\<rparr>],
      ss_client = Some ''gpt'', ss_selected_model = Some (Some ''gpt'')\<rparr>))
   = [Title ''Repo: demo'',
      Write ''Chat with LLM using the repository information and files. You can change model settings anytime during the chat.'',
      Selection_Info [''README.md''] [] [] 100000,
      Chat_Message ''user'' ''hi'', Chat_Message ''assistant'' ''Hello'',
      Chat_Message ''user'' ''more'',
      Call_get_filtered_files [] [''README.md''] [] 100000,
      Sidebar_Sending [''README.md''] [], Sidebar_Total 5,
      Call_chat ''gpt''
        [\<lparr>role = ''system'', content = ''You are a helpful assistant.''\<rparr>,
         \<lparr>role = ''user'', content = ''README.md''\<rparr>,
         \<lparr>role = ''user'', content = ''hi''\<rparr>,
         \<lparr>role = ''assistant'', content = ''Hello''\<rparr>,
         \<lparr>role = ''user'', content = ''more''\<rparr>]
        (7 / 10) (Some ''gpt''),
      Markdown ''Hel'', Markdown ''Hello'']"
  by (simp_all add: run_defs)


theorem client_created_for_selected_model_witness:
  "selected_model (example_ui\<lparr>prompt := Some ''hi''\<rparr>)
     \<in> selectbox_values (MODELS example_api)
   \<and> Call_chat ''gpt''
       [\<lparr>role = ''system'', content = ''You are a helpful assistant.''\<rparr>,
        \<lparr>role = ''user'', content = ''README.md''\<rparr>,
        \<lparr>role = ''user'', content = ''hi''\<rparr>]
       (7 / 10) (Some ''gpt'')
       \<in> set (snd (session_runs example_api [example_ui\<lparr>prompt := Some ''hi''\<rparr>]
                (new_session example_api)))
   \<and> ''gpt'' = create_client_for_model example_api (Some ''gpt'')
   \<and> Call_chat ''gpt''
        [\<lparr>role = ''system'', content = ''You are a helpful assistant.''\<rparr>,
         \<lparr>role = ''user'', content = ''README.md''\<rparr>,
         \<lparr>role = ''user'', content = ''hi''\<rparr>,
         \<lparr>role = ''assistant'', content = ''Hello''\<rparr>,
         \<lparr>role = ''user'', content = ''more''\<rparr>]
        (7 / 10) (Some ''gpt'')
       \<in> set (snd (snd (create_app example_api (example_ui\<lparr>prompt := Some ''more''\<rparr>)
           \<lparr>ss_repoManager = RepoManager example_api,
            ss_messages = [\<lparr>role = ''user'', content = ''hi''\<rparr>,
                           \<lparr>role = ''assistant'', content = ''Hello''\<rparr>],
            ss_client = Some ''gpt'', ss_selected_model = Some (Some ''gpt'')\<rparr>)))
   \<and> filter creates_client
        (snd (snd (create_app example_api (example_ui\<lparr>prompt := Some ''more''\<rparr>)
           \<lparr>ss_repoManager = RepoManager example_api,
            ss_messages = [\<lparr>role = ''user'', content = ''hi''\<rparr>,
                           \<lparr>role = ''assistant'', content = ''Hello''\<rparr>],
            ss_client = Some ''gpt'', ss_selected_model = Some (Some ''gpt'')\<rparr>))) = []
   \<and> ss_client (fst (snd (create_app example_api (example_ui\<lparr>prompt := Some ''more''\<rparr>)
           \<lparr>ss_repoManager = RepoManager example_api,
            ss_messages = [\<lparr>role = ''user'', content = ''hi''\<rparr>,
                           \<lparr>role = ''assistant'', content = ''Hello''\<rparr>],
            ss_client = Some ''gpt'', ss_selected_model = Some (Some ''gpt'')\<rparr>)))
      = Some ''gpt''"
proof -
  let ?uis = "[example_ui\<lparr>prompt := Some ''hi''\<rparr>]"
  let ?ui2 = "example_ui\<lparr>prompt := Some ''more''\<rparr>"
  let ?s = "\<lparr>ss_repoManager = RepoManager example_api,
            ss_messages = [\<lparr>role = ''user'', content = ''hi''\<rparr>,
                           \<lparr>role = ''assistant'', content = ''Hello''\<rparr>],
            ss_client = Some ''gpt'', ss_selected_model = Some (Some ''gpt'')\<rparr>"
  let ?msgs2 = "[\<lparr>role = ''system'', content = ''You are a helpful assistant.''\<rparr>,
         \<lparr>role = ''user'', content = ''README.md''\<rparr>,
         \<lparr>role = ''user'', content = ''hi''\<rparr>,
         \<lparr>role = ''assistant'', content = ''Hello''\<rparr>,
         \<lparr>role = ''user'', content = ''more''\<rparr>]"
  have h1: "\<forall>ui \<in> set ?uis. selected_model ui \<in> selectbox_values (MODELS example_api)"
    by (simp add: example_ui_def example_api_def selectbox_values_def)
  have h2: "Call_chat ''gpt''
       [\<lparr>role = ''system'', content = ''You are a helpful assistant.''\<rparr>,
        \<lparr>role = ''user'', content = ''README.md''\<rparr>,
        \<lparr>role = ''user'', content = ''hi''\<rparr>]
       (7 / 10) (Some ''gpt'')
       \<in> set (snd (session_runs example_api ?uis (new_session example_api)))"
    by (simp only: session_runs_single example_turn(3)) simp
  have h3: "Call_chat ''gpt'' ?msgs2 (7 / 10) (Some ''gpt'')
              \<in> set (snd (snd (create_app example_api ?ui2 ?s)))"
    by (simp only: example_second_turn(2)) simp
  have a: "''gpt'' = create_client_for_model example_api (Some ''gpt'')"
    using client_created_for_selected_model [THEN conjunct1, THEN mp, OF conjI [OF h1 h2]] .
  note b = client_created_for_selected_model
    [THEN conjunct2, THEN mp, OF conjI [OF run_triple h3]]
  have r: "recorded_model ?s = Some ''gpt''" by (simp add: recorded_model_def)
  have c: "filter creates_client (snd (snd (create_app example_api ?ui2 ?s)))
             = (case ss_client ?s of None \<Rightarrow> [Call_create_client (Some ''gpt'')]
                | Some c0 \<Rightarrow> [])
               @ (if recorded_model ?s = Some ''gpt'' then []
                  else [Call_create_client (Some ''gpt'')])"
    using b [THEN conjunct2, THEN conjunct1] .
  have d: "ss_client (fst (snd (create_app example_api ?ui2 ?s))) = Some ''gpt''"
    using b [THEN conjunct2, THEN conjunct2, THEN conjunct2, THEN conjunct1] .
  have e: "filter creates_client (snd (snd (create_app example_api ?ui2 ?s))) = []"
    unfolding c by (simp add: r)
  have h1': "selected_model (example_ui\<lparr>prompt := Some ''hi''\<rparr>)
               \<in> selectbox_values (MODELS example_api)"
    using h1 by simp
  from h1' h2 h3 a d e show ?thesis by (intro conjI)
qed

section \<open>The chat history\<close>











end
